theory Spec2Isabelle
  imports Main "HOL-Library.Sublist" "HOL-Library.Monad_Syntax"
begin

section \<open>JavaScript values\<close>

text \<open>
  The scripts exchange JSON with the server and keep strings in the browser's
  \<open>localStorage\<close>. A string is the list of the bytes of its UTF-8 encoding. A parsed
  JSON document is a value of \<open>json\<close>. A number is a double in JavaScript; the scripts
  only test a number for zero and convert it to a string, so \<open>JNum\<close> carries the text
  JavaScript's number-to-string conversion gives for the parsed number (\<open>7\<close>, \<open>-3\<close>,
  \<open>0.5\<close>, \<open>1e+21\<close>; zero is \<open>0\<close>). A JavaScript value that may also be
  \<open>undefined\<close> is a \<open>json option\<close>, with \<open>None\<close> for \<open>undefined\<close> and
  \<open>Some JNull\<close> for \<open>null\<close>.
\<close>

datatype json =
    JNull
  | JBool bool
  | JNum string
  | JStr string
  | JArr "json list"
  | JObj "(string \<times> json) list"

type_synonym js_value = "json option"

text \<open>Truthiness, as \<open>if (v)\<close>, \<open>!v\<close>, \<open>a || b\<close> and \<open>a && b\<close> test it.\<close>

fun truthy :: "js_value \<Rightarrow> bool" where
  "truthy None = False"
| "truthy (Some JNull) = False"
| "truthy (Some (JBool b)) = b"
| "truthy (Some (JNum t)) = (t \<noteq> ''0'' \<and> t \<noteq> ''NaN'')"
| "truthy (Some (JStr s)) = (s \<noteq> [])"
| "truthy (Some (JArr xs)) = True"
| "truthy (Some (JObj kvs)) = True"

text \<open>
  \<open>localStorage.getItem\<close> returns a string or \<open>null\<close>; the only falsy results are
  \<open>null\<close> and the empty string.
\<close>

definition truthy_str :: "string option \<Rightarrow> bool" where
  "truthy_str s = (case s of None \<Rightarrow> False | Some v \<Rightarrow> v \<noteq> [])"

text \<open>
  Decimal text of an integer. It is the text JavaScript prints for an array's length
  and for an integer-valued number of magnitude below \<open>10^21\<close>.
\<close>

fun show_nat :: "nat \<Rightarrow> string" where
  "show_nat n =
     (if n < 10 then [''0123456789'' ! n]
      else show_nat (n div 10) @ [''0123456789'' ! (n mod 10)])"

declare show_nat.simps [simp del]

definition show_int :: "int \<Rightarrow> string" where
  "show_int i = (if i < 0 then CHR ''-'' # show_nat (nat (- i)) else show_nat (nat i))"

text \<open>\<open>Array.prototype.join\<close> on an array of strings.\<close>

fun join :: "string \<Rightarrow> string list \<Rightarrow> string" where
  "join sep [] = []"
| "join sep [x] = x"
| "join sep (x # y # ys) = x @ sep @ join sep (y # ys)"

text \<open>
  Exceptions. \<open>FetchFailed\<close> is the rejection of \<open>fetch\<close> on a network failure,
  \<open>JsonSyntaxError\<close> the rejection of \<open>response.json()\<close> on a body that is not JSON,
  \<open>TypeError\<close> a property read or write on \<open>null\<close> or \<open>undefined\<close>, a call
  of something that is not a function, or a value that has no string conversion,
  \<open>URIError\<close> the failure of \<open>decodeURIComponent\<close>, \<open>QuotaExceededError\<close> the
  refusal of \<open>localStorage.setItem\<close> to store, and \<open>Error m\<close> the value of
  \<open>new Error(m)\<close>.
\<close>

datatype js_error =
  FetchFailed | JsonSyntaxError | TypeError | URIError | QuotaExceededError | Error string

text \<open>
  String conversion (\<open>String(v)\<close>, template interpolation, the conversion
  \<open>localStorage.setItem\<close> and \<open>new Error\<close> apply to their argument); \<open>None\<close> is the
  \<open>TypeError\<close> of a value that cannot be converted. An array is its elements joined by
  commas, \<open>null\<close> elements giving the empty string. A parsed object inherits
  \<open>toString\<close> from \<open>Object.prototype\<close> and prints as \<open>[object Object]\<close>, unless it
  has a property \<open>toString\<close> of its own: a parsed value is never a function, the
  conversion then turns to \<open>valueOf\<close>, which is not a function either or returns the
  object itself, and throws.
\<close>

fun js_string :: "json \<Rightarrow> string option" where
  "js_string JNull = Some ''null''"
| "js_string (JBool b) = Some (if b then ''true'' else ''false'')"
| "js_string (JNum t) = Some t"
| "js_string (JStr s) = Some s"
| "js_string (JArr xs) =
     map_option (join '','')
       (those (map (\<lambda>x. if x = JNull then Some [] else js_string x) xs))"
| "js_string (JObj kvs) =
     (if ''toString'' \<in> fst ` set kvs then None else Some ''[object Object]'')"

definition to_string :: "js_value \<Rightarrow> js_error + string" where
  "to_string v =
     (case v of
        None \<Rightarrow> Inr ''undefined''
      | Some j \<Rightarrow> (case js_string j of None \<Rightarrow> Inl TypeError | Some s \<Rightarrow> Inr s))"

text \<open>
  Reading a data property \<open>data.k\<close> of a parsed JSON value, for the names the scripts
  read (\<open>access\<close>, \<open>detail\<close>, \<open>message\<close>), none of which is a member of a built-in
  prototype: on \<open>null\<close> the read throws, on an object it is the own property (the last
  one when the document repeats the key) or \<open>undefined\<close>, on any other value it is
  \<open>undefined\<close>.
\<close>

fun get_field :: "json \<Rightarrow> string \<Rightarrow> js_error + js_value" where
  "get_field JNull k = Inl TypeError"
| "get_field (JObj kvs) k = Inr (map_of (rev kvs) k)"
| "get_field j k = Inr None"

section \<open>The browser state\<close>

datatype content = Text string | Html string

record element =
  classList :: "string set"
  content :: content

datatype toast_text = Literal string | MessageOf js_error

record toast =
  toast_type :: string
  toast_message :: toast_text

text \<open>
  A request as handed to \<open>fetch\<close>: the URL and the fields of the init object the
  scripts set. The header object is a map from header name to value, its keys being the
  names as the scripts and their callers spell them (an object's keys are case
  sensitive). A body produced by \<open>JSON.stringify\<close> is kept as the value that was
  serialised.
\<close>

datatype body = Raw string | Stringified json

record request =
  req_url :: string
  req_method :: "string option"
  req_headers :: "string \<rightharpoonup> string"
  req_body :: "body option"

text \<open>
  A response: its status code and the result of \<open>response.json()\<close> (\<open>None\<close> when the
  body does not parse).
\<close>

record response =
  resp_status :: nat
  resp_body :: "json option"

definition ok :: "response \<Rightarrow> bool" where
  "ok r = (200 \<le> resp_status r \<and> resp_status r \<le> 299)"

text \<open>
  A call of \<open>fetch\<close> resolves to a response, whatever its status, or its promise
  rejects: the network failed, or the browser refused the request it was handed (a
  header value, a method or a URL it does not accept). \<open>FetchFailed\<close> is the error of
  that rejection.
\<close>

datatype fetch_outcome = Rejected | Resolved response

text \<open>
  The network is a function of the requests handed to \<open>fetch\<close> so far and of the
  request being handed to it; \<open>fetch\<close> asks it and appends the request to the log, so
  the log holds every call of \<open>fetch\<close>, in order. The state of the page is the
  storage, the location (\<open>href\<close> is \<open>window.location.href\<close>: assigning it asks for a
  navigation, and the running function goes on to its end), the elements of the document
  by id, the cookie string, what was logged with \<open>console.error\<close>, the toasts shown,
  the log of requests, and the browser's storage quota: \<open>quota w m\<close> says whether the
  storage may hold the entries \<open>m\<close>.
\<close>

type_synonym network = "request list \<Rightarrow> request \<Rightarrow> fetch_outcome"

record world =
  localStorage :: "string \<rightharpoonup> string"
  href :: string
  document :: "string \<rightharpoonup> element"
  cookie :: string
  console :: "(string \<times> js_error) list"
  toasts :: "toast list"
  requests :: "request list"
  quota :: "(string \<rightharpoonup> string) \<Rightarrow> bool"

definition fetch :: "network \<Rightarrow> request \<Rightarrow> world \<Rightarrow> fetch_outcome \<times> world" where
  "fetch net req w = (net (requests w) req, w\<lparr>requests := requests w @ [req]\<rparr>)"

definition getItem :: "world \<Rightarrow> string \<Rightarrow> string option" where
  "getItem w k = localStorage w k"

text \<open>
  \<open>localStorage.setItem(k, v)\<close> converts \<open>v\<close> to a string and stores it. It throws
  when the conversion throws, and when the browser refuses the write for lack of room.
  Reading and removing never throw.
\<close>

definition setItem :: "string \<Rightarrow> js_value \<Rightarrow> world \<Rightarrow> js_error + world" where
  "setItem k v w =
     (case to_string v of
        Inl e \<Rightarrow> Inl e
      | Inr s \<Rightarrow>
          if quota w ((localStorage w)(k \<mapsto> s))
          then Inr (w\<lparr>localStorage := (localStorage w)(k \<mapsto> s)\<rparr>)
          else Inl QuotaExceededError)"

definition removeItem :: "string \<Rightarrow> world \<Rightarrow> world" where
  "removeItem k w = w\<lparr>localStorage := (localStorage w)(k := None)\<rparr>"

definition console_error :: "string \<Rightarrow> js_error \<Rightarrow> world \<Rightarrow> world" where
  "console_error label e w = w\<lparr>console := console w @ [(label, e)]\<rparr>"

section \<open>AuthManager\<close>

text \<open>
  The options object of a call: the fields the scripts read or copy into the request.
  \<open>opt_headers = None\<close> is an options object without \<open>headers\<close>; spreading
  \<open>undefined\<close> adds no key.
\<close>

record options =
  opt_method :: "string option"
  opt_headers :: "(string \<rightharpoonup> string) option"
  opt_body :: "body option"

definition spread_headers :: "options \<Rightarrow> (string \<rightharpoonup> string)" where
  "spread_headers opts = (case opt_headers opts of None \<Rightarrow> Map.empty | Some h \<Rightarrow> h)"

definition baseUrl :: string where
  "baseUrl = ''/api/auth''"

definition logout :: "world \<Rightarrow> world" where
  "logout w =
     (removeItem ''userInfo'' (removeItem ''refreshToken'' (removeItem ''authToken'' w)))
       \<lparr>href := ''/login/''\<rparr>"

definition refresh_request :: "string \<Rightarrow> request" where
  "refresh_request refreshToken =
     \<lparr>req_url = baseUrl @ ''/token/refresh/'',
      req_method = Some ''POST'',
      req_headers = [''Content-Type'' \<mapsto> ''application/json''],
      req_body = Some (Stringified (JObj [(''refresh'', JStr refreshToken)]))\<rparr>"

text \<open>
  \<open>refreshToken()\<close>: the value it returns (\<open>Some JNull\<close> for \<open>null\<close>, otherwise
  \<open>data.access\<close>) and the state it leaves. Everything thrown inside the \<open>try\<close> is
  caught, logged and turned into \<open>null\<close>.
\<close>

definition refreshToken :: "network \<Rightarrow> world \<Rightarrow> js_value \<times> world" where
  "refreshToken net w =
     (case getItem w ''refreshToken'' of
        None \<Rightarrow> (Some JNull, logout w)
      | Some refreshToken \<Rightarrow>
          if refreshToken = [] then (Some JNull, logout w)
          else
            (case fetch net (refresh_request refreshToken) w of
               (Rejected, w1) \<Rightarrow>
                 (Some JNull, console_error ''Token refresh error:'' FetchFailed w1)
             | (Resolved response, w1) \<Rightarrow>
                 if \<not> ok response then
                   (Some JNull,
                    console_error ''Token refresh error:'' (Error ''Token refresh failed'') w1)
                 else
                   (case resp_body response of
                      None \<Rightarrow>
                        (Some JNull, console_error ''Token refresh error:'' JsonSyntaxError w1)
                    | Some data \<Rightarrow>
                        (case get_field data ''access'' of
                           Inl e \<Rightarrow> (Some JNull, console_error ''Token refresh error:'' e w1)
                         | Inr access \<Rightarrow>
                             (case setItem ''authToken'' access w1 of
                                Inl e \<Rightarrow>
                                  (Some JNull, console_error ''Token refresh error:'' e w1)
                              | Inr w2 \<Rightarrow> (access, w2))))))"

definition isAuthenticated :: "world \<Rightarrow> bool" where
  "isAuthenticated w = truthy_str (getItem w ''authToken'')"

text \<open>
  The first request of \<open>makeAuthenticatedRequest\<close>: \<open>{ ...options, headers }\<close> with
  \<open>headers = { 'Authorization': `Bearer ${token}`, ...options.headers }\<close>.
\<close>

definition auth_headers :: "string \<Rightarrow> options \<Rightarrow> (string \<rightharpoonup> string)" where
  "auth_headers token opts = [''Authorization'' \<mapsto> ''Bearer '' @ token] ++ spread_headers opts"

definition build_request :: "string \<Rightarrow> options \<Rightarrow> (string \<rightharpoonup> string) \<Rightarrow> request" where
  "build_request url opts headers =
     \<lparr>req_url = url, req_method = opt_method opts, req_headers = headers,
      req_body = opt_body opts\<rparr>"

text \<open>
  \<open>makeAuthenticatedRequest(url, options)\<close>. The result is \<open>Inl e\<close> when the returned
  promise rejects (a \<open>fetch\<close> of the function's own failed, or the template literal of
  the retry could not convert the token: nothing catches either), \<open>Inr None\<close> when it
  resolves to \<open>null\<close> and \<open>Inr (Some r)\<close> when it resolves to the response \<open>r\<close>.
\<close>

definition makeAuthenticatedRequest ::
  "network \<Rightarrow> string \<Rightarrow> options \<Rightarrow> world \<Rightarrow> (js_error + response option) \<times> world" where
  "makeAuthenticatedRequest net url opts w =
     (case getItem w ''authToken'' of
        None \<Rightarrow> (Inr None, logout w)
      | Some token \<Rightarrow>
          if token = [] then (Inr None, logout w)
          else
            (let headers = auth_headers token opts in
             case fetch net (build_request url opts headers) w of
               (Rejected, w1) \<Rightarrow> (Inl FetchFailed, w1)
             | (Resolved response, w1) \<Rightarrow>
                 if resp_status response = 401 then
                   (case refreshToken net w1 of
                      (token', w2) \<Rightarrow>
                        if truthy token' then
                          (case to_string token' of
                             Inl e \<Rightarrow> (Inl e, w2)
                           | Inr text \<Rightarrow>
                               (let headers' = headers(''Authorization'' \<mapsto> ''Bearer '' @ text) in
                                case fetch net (build_request url opts headers') w2 of
                                  (Rejected, w3) \<Rightarrow> (Inl FetchFailed, w3)
                                | (Resolved response', w3) \<Rightarrow> (Inr (Some response'), w3)))
                        else (Inr None, w2))
                 else (Inr (Some response), w1)))"

text \<open>
  The requests a call has sent, that is handed to \<open>fetch\<close>: what it appended to the
  log.
\<close>

definition sent_since :: "world \<Rightarrow> world \<Rightarrow> request list" where
  "sent_since w w' = drop (length (requests w)) (requests w')"


definition first_request :: "string \<Rightarrow> options \<Rightarrow> string \<Rightarrow> request" where
  "first_request url opts token = build_request url opts (auth_headers token opts)"

text \<open>
  The retry: the same options and the same header object, with \<open>Authorization\<close>
  assigned anew from the text of the refreshed token.
\<close>

definition retry_request :: "string \<Rightarrow> options \<Rightarrow> string \<Rightarrow> string \<Rightarrow> request" where
  "retry_request url opts token text =
     build_request url opts
       ((auth_headers token opts)(''Authorization'' \<mapsto> ''Bearer '' @ text))"

text \<open>
  The value \<open>await this.refreshToken()\<close> yields in \<open>makeAuthenticatedRequest\<close>
  after the first request was sent. The refresh succeeded when it is truthy
  (\<open>if (token)\<close>).
\<close>

definition refreshed_token :: "network \<Rightarrow> string \<Rightarrow> options \<Rightarrow> world \<Rightarrow> string \<Rightarrow> js_value" where
  "refreshed_token net url opts w token =
     fst (refreshToken net (w\<lparr>requests := requests w @ [first_request url opts token]\<rparr>))"

text \<open>What \<open>refreshToken()\<close> sends from a state: nothing without a refresh token.\<close>

definition refresh_sent :: "world \<Rightarrow> request list" where
  "refresh_sent w =
     (case getItem w ''refreshToken'' of
        None \<Rightarrow> []
      | Some rt \<Rightarrow> if rt = [] then [] else [refresh_request rt])"

text \<open>
  The refresh attempt fails on a network error or on a response outside 200..299.
\<close>

definition refresh_fails :: "fetch_outcome \<Rightarrow> bool" where
  "refresh_fails out = (case out of Rejected \<Rightarrow> True | Resolved rr \<Rightarrow> \<not> ok rr)"

section \<open>main.js: token helpers, loading spinner, toasts, apiCall\<close>

definition apiBaseUrl :: string where
  "apiBaseUrl = ''/api''"

definition getAuthToken :: "world \<Rightarrow> string option" where
  "getAuthToken w = getItem w ''authToken''"

definition setAuthToken :: "string \<Rightarrow> world \<Rightarrow> js_error + world" where
  "setAuthToken token w = setItem ''authToken'' (Some (JStr token)) w"

definition removeAuthToken :: "world \<Rightarrow> world" where
  "removeAuthToken w = removeItem ''authToken'' w"

text \<open>
  \<open>const el = document.getElementById(id); if (el) el.classList.add(c)\<close> and the same
  with \<open>remove\<close>: nothing happens when the element is missing.
\<close>

definition classList_add :: "string \<Rightarrow> string \<Rightarrow> world \<Rightarrow> world" where
  "classList_add ident c w =
     (case document w ident of
        None \<Rightarrow> w
      | Some el \<Rightarrow> w\<lparr>document := (document w)(ident \<mapsto> el\<lparr>classList := insert c (classList el)\<rparr>)\<rparr>)"

definition classList_remove :: "string \<Rightarrow> string \<Rightarrow> world \<Rightarrow> world" where
  "classList_remove ident c w =
     (case document w ident of
        None \<Rightarrow> w
      | Some el \<Rightarrow> w\<lparr>document := (document w)(ident \<mapsto> el\<lparr>classList := classList el - {c}\<rparr>)\<rparr>)"

definition showLoading :: "world \<Rightarrow> world" where
  "showLoading w = classList_remove ''loading-spinner'' ''hidden'' w"

definition hideLoading :: "world \<Rightarrow> world" where
  "hideLoading w = classList_add ''loading-spinner'' ''hidden'' w"

text \<open>
  \<open>showToast(message, type)\<close> returns at once when the toast container is missing;
  otherwise it appends a toast. The toast's markup and its removal after the duration are
  not modelled: a toast is its type and its message.
\<close>

definition showToast :: "toast_text \<Rightarrow> string \<Rightarrow> world \<Rightarrow> world" where
  "showToast message type w =
     (case document w ''toast-container'' of
        None \<Rightarrow> w
      | Some container \<Rightarrow>
          w\<lparr>toasts := toasts w @ [\<lparr>toast_type = type, toast_message = message\<rparr>]\<rparr>)"

text \<open>
  \<open>defaultHeaders\<close> of \<open>apiCall\<close>: the content type, and the bearer token when one is
  stored.
\<close>

definition defaultHeaders :: "string option \<Rightarrow> (string \<rightharpoonup> string)" where
  "defaultHeaders token =
     (case token of
        None \<Rightarrow> [''Content-Type'' \<mapsto> ''application/json'']
      | Some t \<Rightarrow>
          if t = [] then [''Content-Type'' \<mapsto> ''application/json'']
          else [''Content-Type'' \<mapsto> ''application/json'', ''Authorization'' \<mapsto> ''Bearer '' @ t])"

text \<open>
  \<open>config = { headers: defaultHeaders, ...options, headers: { ...defaultHeaders,
  ...options.headers } }\<close>, sent to \<open>`${apiBaseUrl}${endpoint}`\<close>.
\<close>

definition api_request :: "string \<Rightarrow> options \<Rightarrow> string option \<Rightarrow> request" where
  "api_request endpoint opts token =
     build_request (apiBaseUrl @ endpoint) opts (defaultHeaders token ++ spread_headers opts)"

text \<open>
  What \<open>throw new Error(data.detail || data.message || 'API Error')\<close> throws: reading
  a property of \<open>null\<close> throws a \<open>TypeError\<close> before the \<open>Error\<close> is built, and so
  does a message that cannot be converted to a string.
\<close>

definition new_Error :: "js_value \<Rightarrow> js_error" where
  "new_Error message = (case to_string message of Inl e \<Rightarrow> e | Inr m \<Rightarrow> Error m)"

definition api_error :: "json \<Rightarrow> js_error" where
  "api_error data =
     (case get_field data ''detail'' of
        Inl e \<Rightarrow> e
      | Inr detail \<Rightarrow>
          if truthy detail then new_Error detail
          else
            (case get_field data ''message'' of
               Inl e \<Rightarrow> e
             | Inr message \<Rightarrow>
                 if truthy message then new_Error message else Error ''API Error''))"

text \<open>
  The \<open>try\<close> block of \<open>apiCall\<close>: \<open>Inl e\<close> when it throws \<open>e\<close>, \<open>Inr None\<close> for the
  bare \<open>return\<close> after a 401, \<open>Inr (Some data)\<close> for \<open>return data\<close>.
\<close>

definition apiCall_try ::
  "network \<Rightarrow> string \<Rightarrow> options \<Rightarrow> string option \<Rightarrow> world \<Rightarrow> (js_error + js_value) \<times> world" where
  "apiCall_try net endpoint opts token w =
     (case fetch net (api_request endpoint opts token) (showLoading w) of
        (Rejected, w1) \<Rightarrow> (Inl FetchFailed, w1)
      | (Resolved response, w1) \<Rightarrow>
          if resp_status response = 401 then
            (Inr None, (removeAuthToken w1)\<lparr>href := ''/login/''\<rparr>)
          else
            (case resp_body response of
               None \<Rightarrow> (Inl JsonSyntaxError, w1)
             | Some data \<Rightarrow>
                 if \<not> ok response then (Inl (api_error data), w1)
                 else (Inr (Some data), w1)))"

text \<open>
  \<open>apiCall(endpoint, options)\<close>: the \<open>catch\<close> block logs, shows a toast and rethrows;
  the \<open>finally\<close> block runs on every exit of the \<open>try\<close> and of the \<open>catch\<close>.
\<close>

definition apiCall ::
  "network \<Rightarrow> string \<Rightarrow> options \<Rightarrow> world \<Rightarrow> (js_error + js_value) \<times> world" where
  "apiCall net endpoint opts w =
     (case apiCall_try net endpoint opts (getAuthToken w) w of
        (Inl error, w1) \<Rightarrow>
          (Inl error,
           hideLoading (showToast (MessageOf error) ''error'' (console_error ''API Error:'' error w1)))
      | (Inr data, w1) \<Rightarrow> (Inr data, hideLoading w1))"

text \<open>
  A loading indicator is cleared in a state when its element, if the page has one,
  carries the class \<open>hidden\<close>.
\<close>

definition indicator_cleared :: "string \<Rightarrow> world \<Rightarrow> bool" where
  "indicator_cleared ident w =
     (case document w ident of None \<Rightarrow> True | Some el \<Rightarrow> ''hidden'' \<in> classList el)"

section \<open>CitizenDashboard\<close>

text \<open>
  A report as the server sends it (the fields the dashboard reads). \<open>report_id\<close> and
  \<open>report_image\<close> are the fields \<open>id\<close> and \<open>image\<close>; \<open>image\<close> and \<open>address\<close> may
  be \<open>null\<close>. The id is an integer that JavaScript prints in plain decimal notation
  (\<open>show_int\<close>); the typed reading of a response below admits no other number.
\<close>

record report =
  report_id :: int
  title :: string
  description :: string
  category :: string
  category_display :: string
  status :: string
  status_display :: string
  priority :: string
  priority_display :: string
  report_image :: "string option"
  address :: "string option"
  created_at :: string

text \<open>\<open>currentFilters\<close>: \<open>sel_status\<close> and \<open>sel_category\<close> are its fields \<open>status\<close> and
  \<open>category\<close>, the values of the two select controls.\<close>

record filters =
  sel_status :: string
  sel_category :: string

record dashboard =
  reports :: "report list"
  filteredReports :: "report list"
  currentFilters :: filters

subsection \<open>Icons\<close>

text \<open>
  \<open>icons[status]\<close> reads a property of an object literal. The literal inherits from
  \<open>Object.prototype\<close>, so a key that is not one of its own properties still finds the
  members of the prototype: \<open>constructor\<close>, \<open>toString\<close> and the others are functions,
  \<open>__proto__\<close> is the prototype object. All of them are truthy.
\<close>

datatype property = Own string | Inherited string | Missing

definition object_prototype_members :: "string list" where
  "object_prototype_members =
     [''constructor'', ''__proto__'', ''hasOwnProperty'', ''isPrototypeOf'',
      ''propertyIsEnumerable'', ''toLocaleString'', ''toString'', ''valueOf'',
      ''__defineGetter__'', ''__defineSetter__'', ''__lookupGetter__'', ''__lookupSetter__'']"

definition literal_get :: "(string \<times> string) list \<Rightarrow> string \<Rightarrow> property" where
  "literal_get obj k =
     (case map_of obj k of
        Some v \<Rightarrow> Own v
      | None \<Rightarrow> if k \<in> set object_prototype_members then Inherited k else Missing)"

text \<open>
  String conversion of an inherited member, as a template literal interpolates it: the
  prototype object gives \<open>[object Object]\<close>, a built-in function its source text
  \<open>function name() { [native code] }\<close> (the spelling of V8, SpiderMonkey and
  JavaScriptCore).
\<close>

definition member_string :: "string \<Rightarrow> string" where
  "member_string k =
     (if k = ''__proto__'' then ''[object Object]''
      else ''function '' @ (if k = ''constructor'' then ''Object'' else k) @ ''() { [native code] }'')"

text \<open>\<open>`${obj[k] || fallback}`\<close> for an object literal with string values.\<close>

definition literal_or :: "(string \<times> string) list \<Rightarrow> string \<Rightarrow> string \<Rightarrow> string" where
  "literal_or obj k fallback =
     (case literal_get obj k of
        Own v \<Rightarrow> if v = [] then fallback else v
      | Inherited m \<Rightarrow> member_string m
      | Missing \<Rightarrow> fallback)"

definition status_icons :: "(string \<times> string) list" where
  "status_icons =
     [(''submitted'', ''fas fa-clock''),
      (''in_progress'', ''fas fa-cog''),
      (''resolved'', ''fas fa-check-circle''),
      (''rejected'', ''fas fa-times-circle'')]"

definition getStatusIcon :: "string \<Rightarrow> string" where
  \<open>getStatusIcon s =
     ''<i class="'' @ literal_or status_icons s ''fas fa-question-circle'' @ ''"></i>''\<close>

definition priority_icons :: "(string \<times> string) list" where
  "priority_icons =
     [(''low'', ''fas fa-arrow-down''),
      (''medium'', ''fas fa-minus''),
      (''high'', ''fas fa-arrow-up''),
      (''urgent'', ''fas fa-exclamation'')]"

definition getPriorityIcon :: "string \<Rightarrow> string" where
  \<open>getPriorityIcon p =
     ''<i class="'' @ literal_or priority_icons p ''fas fa-minus'' @ ''"></i>''\<close>

subsection \<open>Rendering one report\<close>

text \<open>\<open>s.replace(a, b)\<close> with one-character strings: the first occurrence only.\<close>

fun replace_first :: "char \<Rightarrow> char \<Rightarrow> string \<Rightarrow> string" where
  "replace_first a b [] = []"
| "replace_first a b (c # cs) = (if c = a then b # cs else c # replace_first a b cs)"

definition statusClass :: "report \<Rightarrow> string" where
  "statusClass r = ''status-'' @ replace_first CHR ''_'' CHR ''-'' (status r)"

definition priorityClass :: "report \<Rightarrow> string" where
  "priorityClass r = ''priority-'' @ priority r"

text \<open>\<open>report.address || 'Location provided'\<close>\<close>

definition address_text :: "report \<Rightarrow> string" where
  "address_text r =
     (case address r of
        None \<Rightarrow> ''Location provided''
      | Some a \<Rightarrow> if a = [] then ''Location provided'' else a)"

text \<open>\<open>report.image ? `...` : ''\<close>\<close>

definition image_block :: "report \<Rightarrow> string" where
  \<open>image_block r =
     (case report_image r of
        None \<Rightarrow> []
      | Some src \<Rightarrow>
          if src = [] then []
          else concat
             [''\<newline>                    <div class="report-image mb-2">'',
              ''\<newline>                        <img src="'',
              src,
              ''" alt="Report image" style="max-width: 200px; border-radius: 8px;">'',
              ''\<newline>                    </div>'',
              ''\<newline>                ''])\<close>

text \<open>
  The template of \<open>renderReportItem\<close> is cut in three: the text before the action set,
  the action set (the element of class \<open>report-actions\<close>) and the text after it. Line
  breaks and indentation are those of the template literal. \<open>formatDate\<close> depends on
  the browser's locale and is a parameter.
\<close>

definition item_header :: "(string \<Rightarrow> string) \<Rightarrow> report \<Rightarrow> string" where
  \<open>item_header formatDate r =
     concat
       [''\<newline>            <div class="report-item" data-report-id="'',
        show_int (report_id r),
        ''">'',
        ''\<newline>                <div class="report-header">'',
        ''\<newline>                    <div>'',
        ''\<newline>                        <div class="report-title">'',
        title r,
        ''</div>'',
        ''\<newline>                        <div class="report-meta">'',
        ''\<newline>                            <span><i class="fas fa-tag"></i> '',
        category_display r,
        ''</span>'',
        ''\<newline>                            <span><i class="fas fa-calendar"></i> '',
        formatDate (created_at r),
        ''</span>'',
        ''\<newline>                            <span><i class="fas fa-map-marker-alt"></i> '',
        address_text r,
        ''</span>'',
        ''\<newline>                        </div>'',
        ''\<newline>                    </div>'',
        ''\<newline>                    <div class="d-flex gap-1" style="flex-direction: column; align-items: flex-end;">'',
        ''\<newline>                        <span class="status-badge '',
        statusClass r,
        ''">'',
        ''\<newline>                            '',
        getStatusIcon (status r),
        '' '',
        status_display r,
        ''\<newline>                        </span>'',
        ''\<newline>                        <span class="status-badge '',
        priorityClass r,
        ''">'',
        ''\<newline>                            '',
        getPriorityIcon (priority r),
        '' '',
        priority_display r,
        ''\<newline>                        </span>'',
        ''\<newline>                    </div>'',
        ''\<newline>                </div>'',
        ''\<newline>                '',
        ''\<newline>                <div class="report-description">'',
        ''\<newline>                    '',
        description r,
        ''\<newline>                </div>'',
        ''\<newline>                '',
        ''\<newline>                '',
        image_block r,
        ''\<newline>                '',
        ''\<newline>                '']\<close>

definition view_button :: "report \<Rightarrow> string" where
  \<open>view_button r =
     concat
       [''<button onclick="viewReportDetails('',
        show_int (report_id r),
        '')" class="btn btn-outline">'',
        ''\<newline>                        <i class="fas fa-eye"></i> View Details'',
        ''\<newline>                    </button>'']\<close>

definition edit_button :: "report \<Rightarrow> string" where
  \<open>edit_button r =
     concat
       [''<button onclick="editReport('',
        show_int (report_id r),
        '')" class="btn btn-secondary">'',
        ''\<newline>                            <i class="fas fa-edit"></i> Edit'',
        ''\<newline>                        </button>'']\<close>

text \<open>\<open>report.status === 'submitted' ? `...` : ''\<close>\<close>

definition edit_action :: "report \<Rightarrow> string" where
  \<open>edit_action r =
     (if status r = ''submitted'' then
        ''\<newline>                        '' @ edit_button r @ ''\<newline>                    ''
      else [])\<close>

definition report_actions :: "report \<Rightarrow> string" where
  \<open>report_actions r =
     concat
       [''<div class="report-actions">'',
        ''\<newline>                    '',
        view_button r,
        ''\<newline>                    '',
        edit_action r,
        ''\<newline>                </div>'']\<close>

definition item_footer :: string where
  \<open>item_footer = ''\<newline>            </div>'' @ ''\<newline>        ''\<close>

definition renderReportItem :: "(string \<Rightarrow> string) \<Rightarrow> report \<Rightarrow> string" where
  "renderReportItem formatDate r = item_header formatDate r @ report_actions r @ item_footer"

subsection \<open>Statistics\<close>

record stats =
  total :: nat
  submitted :: nat
  in_progress :: nat
  resolved :: nat

text \<open>The object \<open>stats\<close> that \<open>updateStats\<close> builds from \<open>this.reports\<close>.\<close>

definition compute_stats :: "dashboard \<Rightarrow> stats" where
  "compute_stats d =
     \<lparr>total = length (reports d),
      submitted = length (filter (\<lambda>r. status r = ''submitted'') (reports d)),
      in_progress = length (filter (\<lambda>r. status r = ''in_progress'') (reports d)),
      resolved = length (filter (\<lambda>r. status r = ''resolved'') (reports d))\<rparr>"

text \<open>
  \<open>document.getElementById(id).textContent = n\<close>: a \<open>TypeError\<close> when the element is
  missing. A statement that may throw returns the error, if any, and the state reached.
\<close>

definition set_textContent :: "string \<Rightarrow> nat \<Rightarrow> world \<Rightarrow> js_error option \<times> world" where
  "set_textContent ident n w =
     (case document w ident of
        None \<Rightarrow> (Some TypeError, w)
      | Some el \<Rightarrow>
          (None, w\<lparr>document := (document w)(ident \<mapsto> el\<lparr>content := Text (show_nat n)\<rparr>)\<rparr>))"

definition and_then ::
  "(world \<Rightarrow> js_error option \<times> world) \<Rightarrow> (world \<Rightarrow> js_error option \<times> world) \<Rightarrow>
   world \<Rightarrow> js_error option \<times> world" where
  "and_then f g w = (case f w of (Some e, w') \<Rightarrow> (Some e, w') | (None, w') \<Rightarrow> g w')"

definition updateStats :: "dashboard \<Rightarrow> world \<Rightarrow> js_error option \<times> world" where
  "updateStats d w =
     (let stats = compute_stats d in
      and_then (set_textContent ''total-reports'' (total stats))
        (and_then (set_textContent ''pending-reports'' (submitted stats))
          (and_then (set_textContent ''in-progress-reports'' (in_progress stats))
            (set_textContent ''resolved-reports'' (resolved stats)))) w)"

subsection \<open>Filtering\<close>

text \<open>
  The callback of \<open>this.reports.filter\<close> in \<open>applyFilters\<close>, with its two early
  returns. A selector value is a string; it is falsy when empty.
\<close>

definition filter_callback :: "filters \<Rightarrow> report \<Rightarrow> bool" where
  "filter_callback f report =
     (if sel_status f \<noteq> [] \<and> status report \<noteq> sel_status f then False
      else if sel_category f \<noteq> [] \<and> category report \<noteq> sel_category f then False
      else True)"

text \<open>
  \<open>renderReports\<close>: nothing without the container; the empty state when the filtered
  list is empty; otherwise the fragments of the filtered reports, joined.
\<close>

definition set_innerHTML :: "string \<Rightarrow> string \<Rightarrow> world \<Rightarrow> world" where
  "set_innerHTML ident h w =
     (case document w ident of
        None \<Rightarrow> w
      | Some el \<Rightarrow> w\<lparr>document := (document w)(ident \<mapsto> el\<lparr>content := Html h\<rparr>)\<rparr>)"

definition renderReports :: "(string \<Rightarrow> string) \<Rightarrow> dashboard \<Rightarrow> world \<Rightarrow> world" where
  "renderReports formatDate d w =
     (case document w ''reports-container'' of
        None \<Rightarrow> w
      | Some container \<Rightarrow>
          if filteredReports d = [] then
            classList_remove ''no-reports'' ''hidden''
              (classList_add ''reports-container'' ''hidden'' w)
          else
            set_innerHTML ''reports-container''
              (join [] (map (renderReportItem formatDate) (filteredReports d)))
              (classList_remove ''reports-container'' ''hidden''
                (classList_add ''no-reports'' ''hidden'' w)))"

definition applyFilters ::
  "(string \<Rightarrow> string) \<Rightarrow> dashboard \<Rightarrow> world \<Rightarrow> dashboard \<times> world" where
  "applyFilters formatDate d w =
     (let d' = d\<lparr>filteredReports := filter (filter_callback (currentFilters d)) (reports d)\<rparr>
      in (d', renderReports formatDate d' w))"

text \<open>
  The condition of the specification, in its words: the status selector is empty or the
  report's status equals it, and the category selector is empty or the report's category
  equals it.
\<close>

definition spec_visible :: "string \<Rightarrow> string \<Rightarrow> report \<Rightarrow> bool" where
  "spec_visible status_selector category_selector r =
     ((status_selector = [] \<or> status r = status_selector) \<and>
      (category_selector = [] \<or> category r = category_selector))"

text \<open>The two change handlers of the select controls.\<close>

definition on_status_change ::
  "(string \<Rightarrow> string) \<Rightarrow> string \<Rightarrow> dashboard \<Rightarrow> world \<Rightarrow> dashboard \<times> world" where
  "on_status_change formatDate v d w =
     applyFilters formatDate (d\<lparr>currentFilters := (currentFilters d)\<lparr>sel_status := v\<rparr>\<rparr>) w"

definition on_category_change ::
  "(string \<Rightarrow> string) \<Rightarrow> string \<Rightarrow> dashboard \<Rightarrow> world \<Rightarrow> dashboard \<times> world" where
  "on_category_change formatDate v d w =
     applyFilters formatDate (d\<lparr>currentFilters := (currentFilters d)\<lparr>sel_category := v\<rparr>\<rparr>) w"

subsection \<open>Loading the reports\<close>

definition dashboard_hideLoading :: "world \<Rightarrow> world" where
  "dashboard_hideLoading w = classList_add ''reports-loading'' ''hidden'' w"

definition showNoReports :: "world \<Rightarrow> world" where
  "showNoReports w =
     classList_remove ''no-reports'' ''hidden'' (classList_add ''reports-container'' ''hidden'' w)"

text \<open>
  \<open>String.prototype.trim\<close> removes white space and line terminators from both ends:
  the code points U+0009 to U+000D, U+0020, U+00A0, U+1680, U+2000 to U+200A, U+2028,
  U+2029, U+202F, U+205F, U+3000 and U+FEFF, here in their UTF-8 encodings.
\<close>

definition white_space :: "string list" where
  "white_space =
     [[CHR 0x09], [CHR 0x0A], [CHR 0x0B], [CHR 0x0C], [CHR 0x0D], [CHR 0x20],
      [CHR 0xC2, CHR 0xA0],
      [CHR 0xE1, CHR 0x9A, CHR 0x80],
      [CHR 0xE2, CHR 0x80, CHR 0x80], [CHR 0xE2, CHR 0x80, CHR 0x81],
      [CHR 0xE2, CHR 0x80, CHR 0x82], [CHR 0xE2, CHR 0x80, CHR 0x83],
      [CHR 0xE2, CHR 0x80, CHR 0x84], [CHR 0xE2, CHR 0x80, CHR 0x85],
      [CHR 0xE2, CHR 0x80, CHR 0x86], [CHR 0xE2, CHR 0x80, CHR 0x87],
      [CHR 0xE2, CHR 0x80, CHR 0x88], [CHR 0xE2, CHR 0x80, CHR 0x89],
      [CHR 0xE2, CHR 0x80, CHR 0x8A],
      [CHR 0xE2, CHR 0x80, CHR 0xA8], [CHR 0xE2, CHR 0x80, CHR 0xA9],
      [CHR 0xE2, CHR 0x80, CHR 0xAF],
      [CHR 0xE2, CHR 0x81, CHR 0x9F],
      [CHR 0xE3, CHR 0x80, CHR 0x80],
      [CHR 0xEF, CHR 0xBB, CHR 0xBF]]"

definition leading_space :: "string \<Rightarrow> string option" where
  "leading_space s = find (\<lambda>sp. prefix sp s) white_space"

definition trailing_space :: "string \<Rightarrow> string option" where
  "trailing_space s = find (\<lambda>sp. suffix sp s) white_space"

lemma white_space_nonempty: "sp \<in> set white_space \<Longrightarrow> sp \<noteq> []"
  by (auto simp: white_space_def)

lemma leading_space_shorter:
  assumes "leading_space s = Some sp"
  shows "length s - length sp < length s"
proof -
  from assms have "sp \<in> set white_space" "prefix sp s"
    by (auto simp: leading_space_def find_Some_iff)
  then have "sp \<noteq> []" "length sp \<le> length s"
    by (auto simp: white_space_nonempty prefix_length_le)
  then show ?thesis by (cases sp) auto
qed

lemma trailing_space_shorter:
  assumes "trailing_space s = Some sp"
  shows "length s - length sp < length s"
proof -
  from assms have "sp \<in> set white_space" "suffix sp s"
    by (auto simp: trailing_space_def find_Some_iff)
  then have "sp \<noteq> []" "length sp \<le> length s"
    by (auto simp: white_space_nonempty suffix_length_le)
  then show ?thesis by (cases sp) auto
qed

function strip_start :: "string \<Rightarrow> string" where
  "strip_start s =
     (case leading_space s of
        None \<Rightarrow> s
      | Some sp \<Rightarrow> strip_start (drop (length sp) s))"
  by pat_completeness auto
termination
  by (relation "measure length") (auto simp: leading_space_shorter)

function strip_end :: "string \<Rightarrow> string" where
  "strip_end s =
     (case trailing_space s of
        None \<Rightarrow> s
      | Some sp \<Rightarrow> strip_end (take (length s - length sp) s))"
  by pat_completeness auto
termination
  by (relation "measure length") (auto simp: trailing_space_shorter)

declare strip_start.simps [simp del] strip_end.simps [simp del]

definition trim :: "string \<Rightarrow> string" where
  "trim s = strip_end (strip_start s)"

text \<open>
  \<open>getCookie(name)\<close>: the cookie string is split at semicolons, each piece trimmed,
  and the first piece that starts with \<open>name=\<close> is decoded. \<open>decodeURIComponent\<close> is a
  parameter; \<open>None\<close> is its \<open>URIError\<close>.
\<close>

fun split_on :: "char \<Rightarrow> string \<Rightarrow> string list" where
  "split_on c [] = [[]]"
| "split_on c (x # xs) =
     (if x = c then [] # split_on c xs
      else (case split_on c xs of [] \<Rightarrow> [[x]] | y # ys \<Rightarrow> (x # y) # ys))"

fun find_cookie ::
  "(string \<Rightarrow> string option) \<Rightarrow> string \<Rightarrow> string list \<Rightarrow> js_error + string option" where
  "find_cookie decodeURIComponent name [] = Inr None"
| "find_cookie decodeURIComponent name (c # cs) =
     (let cookie = trim c in
      if take (length name + 1) cookie = name @ ''='' then
        (case decodeURIComponent (drop (length name + 1) cookie) of
           None \<Rightarrow> Inl URIError
         | Some v \<Rightarrow> Inr (Some v))
      else find_cookie decodeURIComponent name cs)"

definition getCookie ::
  "(string \<Rightarrow> string option) \<Rightarrow> world \<Rightarrow> string \<Rightarrow> js_error + string option" where
  "getCookie decodeURIComponent w name =
     (if cookie w \<noteq> [] then find_cookie decodeURIComponent name (split_on CHR '';'' (cookie w))
      else Inr None)"

text \<open>
  The typed reading of the response body of \<open>/api/reports/user/\<close>: a JSON array of
  objects with the fields of a report, the id being a number whose text is the plain
  decimal text of an integer.
\<close>

definition digit_value :: "char \<Rightarrow> nat option" where
  "digit_value c =
     (if 48 \<le> (of_char c :: nat) \<and> (of_char c :: nat) \<le> 57 then Some (of_char c - 48)
      else None)"

fun read_digits :: "nat \<Rightarrow> string \<Rightarrow> nat option" where
  "read_digits acc [] = Some acc"
| "read_digits acc (c # cs) =
     (case digit_value c of None \<Rightarrow> None | Some d \<Rightarrow> read_digits (10 * acc + d) cs)"

definition read_int :: "string \<Rightarrow> int option" where
  "read_int t =
     (case t of
        [] \<Rightarrow> None
      | c # cs \<Rightarrow>
          if c = CHR ''-'' then
            (if cs = [] then None else map_option (\<lambda>n. - int n) (read_digits 0 cs))
          else map_option int (read_digits 0 t))"

definition str_field :: "(string \<times> json) list \<Rightarrow> string \<Rightarrow> string option" where
  "str_field kvs k = (case map_of (rev kvs) k of Some (JStr s) \<Rightarrow> Some s | _ \<Rightarrow> None)"

definition int_field :: "(string \<times> json) list \<Rightarrow> string \<Rightarrow> int option" where
  "int_field kvs k =
     (case map_of (rev kvs) k of
        Some (JNum t) \<Rightarrow>
          (case read_int t of
             None \<Rightarrow> None
           | Some n \<Rightarrow> if show_int n = t then Some n else None)
      | _ \<Rightarrow> None)"

definition opt_str_field :: "(string \<times> json) list \<Rightarrow> string \<Rightarrow> string option option" where
  "opt_str_field kvs k =
     (case map_of (rev kvs) k of
        None \<Rightarrow> Some None
      | Some JNull \<Rightarrow> Some None
      | Some (JStr s) \<Rightarrow> Some (Some s)
      | _ \<Rightarrow> None)"

fun report_of_json :: "json \<Rightarrow> report option" where
  "report_of_json (JObj kvs) =
     do {
       i \<leftarrow> int_field kvs ''id'';
       t \<leftarrow> str_field kvs ''title'';
       de \<leftarrow> str_field kvs ''description'';
       c \<leftarrow> str_field kvs ''category'';
       cd \<leftarrow> str_field kvs ''category_display'';
       s \<leftarrow> str_field kvs ''status'';
       sd \<leftarrow> str_field kvs ''status_display'';
       p \<leftarrow> str_field kvs ''priority'';
       pd \<leftarrow> str_field kvs ''priority_display'';
       im \<leftarrow> opt_str_field kvs ''image'';
       a \<leftarrow> opt_str_field kvs ''address'';
       ca \<leftarrow> str_field kvs ''created_at'';
       Some \<lparr>report_id = i, title = t, description = de, category = c,
             category_display = cd, status = s, status_display = sd, priority = p,
             priority_display = pd, report_image = im, address = a, created_at = ca\<rparr>
     }"
| "report_of_json j = None"

fun reports_of_json :: "json \<Rightarrow> report list option" where
  "reports_of_json (JArr xs) = those (map report_of_json xs)"
| "reports_of_json j = None"

definition reports_request :: "string option \<Rightarrow> request" where
  "reports_request csrftoken =
     \<lparr>req_url = ''/api/reports/user/'',
      req_method = Some ''GET'',
      req_headers =
        [''X-CSRFToken'' \<mapsto> (case csrftoken of None \<Rightarrow> ''null'' | Some v \<Rightarrow> v)],
      req_body = None\<rparr>"

text \<open>
  The \<open>try\<close> block of \<open>loadReports\<close>: the error it throws, if any, with the dashboard
  and the state reached. The script does not check the body it receives. On a body that
  is a list of reports it runs as written below. On any other body the three statements
  \<open>this.reports = data; this.updateStats(); this.applyFilters()\<close> may throw at once,
  throw after the counts are written, or throw nothing and render \<open>undefined\<close> fields,
  and \<open>this.reports\<close> is then not a list of reports; what they do there is the
  parameter \<open>untyped_run\<close>, about which nothing is assumed.
\<close>

type_synonym untyped_run =
  "json \<Rightarrow> dashboard \<Rightarrow> world \<Rightarrow> js_error option \<times> dashboard \<times> world"

definition loadReports_try ::
  "(string \<Rightarrow> string option) \<Rightarrow> (string \<Rightarrow> string) \<Rightarrow> untyped_run \<Rightarrow> network \<Rightarrow>
   dashboard \<Rightarrow> world \<Rightarrow> js_error option \<times> dashboard \<times> world" where
  "loadReports_try decodeURIComponent formatDate untyped_run net d w =
     (case getCookie decodeURIComponent w ''csrftoken'' of
        Inl e \<Rightarrow> (Some e, d, w)
      | Inr csrftoken \<Rightarrow>
          (case fetch net (reports_request csrftoken) w of
             (Rejected, w1) \<Rightarrow> (Some FetchFailed, d, w1)
           | (Resolved response, w1) \<Rightarrow>
               if \<not> ok response then (Some (Error ''Failed to load reports''), d, w1)
               else
                 (case resp_body response of
                    None \<Rightarrow> (Some JsonSyntaxError, d, w1)
                  | Some data \<Rightarrow>
                      (case reports_of_json data of
                         None \<Rightarrow> untyped_run data d w1
                       | Some rs \<Rightarrow>
                           (let d1 = d\<lparr>reports := rs\<rparr> in
                            case updateStats d1 w1 of
                              (Some e, w2) \<Rightarrow> (Some e, d1, w2)
                            | (None, w2) \<Rightarrow>
                                (case applyFilters formatDate d1 w2 of
                                   (d2, w3) \<Rightarrow> (None, d2, w3)))))))"

text \<open>
  \<open>loadReports()\<close>: the \<open>catch\<close> block logs, shows a toast and the empty state, and
  swallows the error; the \<open>finally\<close> block hides the loading element on every path.
\<close>

definition loadReports ::
  "(string \<Rightarrow> string option) \<Rightarrow> (string \<Rightarrow> string) \<Rightarrow> untyped_run \<Rightarrow> network \<Rightarrow>
   dashboard \<Rightarrow> world \<Rightarrow> dashboard \<times> world" where
  "loadReports decodeURIComponent formatDate untyped_run net d w =
     (case loadReports_try decodeURIComponent formatDate untyped_run net d w of
        (Some error, d1, w1) \<Rightarrow>
          (d1,
           dashboard_hideLoading
             (showNoReports
               (showToast (Literal ''Failed to load reports'') ''error''
                 (console_error ''Error loading reports:'' error w1))))
      | (None, d1, w1) \<Rightarrow> (d1, dashboard_hideLoading w1))"

section \<open>Example inputs\<close>

text \<open>
  A network that answers the n-th request with the n-th outcome of a script, whatever the
  request, and fails once the script is used up.
\<close>

definition scripted :: "fetch_outcome list \<Rightarrow> network" where
  "scripted outs log req = (if length log < length outs then outs ! length log else Rejected)"

definition unauthorized :: response where
  "unauthorized = \<lparr>resp_status = 401, resp_body = Some (JObj [(''detail'', JStr ''expired'')])\<rparr>"

definition token_response :: response where
  "token_response = \<lparr>resp_status = 200, resp_body = Some (JObj [(''access'', JStr ''new'')])\<rparr>"

definition empty_list_response :: response where
  "empty_list_response = \<lparr>resp_status = 200, resp_body = Some (JArr [])\<rparr>"

definition server_error :: response where
  "server_error = \<lparr>resp_status = 500, resp_body = None\<rparr>"

definition example_element :: element where
  "example_element = \<lparr>classList = {}, content = Text []\<rparr>"

definition example_document :: "string \<rightharpoonup> element" where
  "example_document =
     [''loading-spinner'' \<mapsto> example_element,
      ''reports-loading'' \<mapsto> example_element,
      ''toast-container'' \<mapsto> example_element,
      ''reports-container'' \<mapsto> example_element,
      ''no-reports'' \<mapsto> example_element,
      ''total-reports'' \<mapsto> example_element,
      ''pending-reports'' \<mapsto> example_element,
      ''in-progress-reports'' \<mapsto> example_element,
      ''resolved-reports'' \<mapsto> example_element]"

definition roomy :: "(string \<rightharpoonup> string) \<Rightarrow> bool" where
  "roomy m = True"

definition example_world :: world where
  "example_world =
     \<lparr>localStorage =
        [''authToken'' \<mapsto> ''old'', ''refreshToken'' \<mapsto> ''ref'', ''userInfo'' \<mapsto> ''{}''],
      href = ''/citizen/dashboard/'',
      document = example_document,
      cookie = ''csrftoken=abc'',
      console = [],
      toasts = [],
      requests = [],
      quota = roomy\<rparr>"

definition example_options :: options where
  "example_options =
     \<lparr>opt_method = Some ''GET'',
      opt_headers = Some [''Authorization'' \<mapsto> ''Token caller'', ''Accept'' \<mapsto> ''text/html''],
      opt_body = None\<rparr>"

definition signed_out_world :: world where
  "signed_out_world =
     example_world\<lparr>localStorage := [''refreshToken'' \<mapsto> ''ref'', ''userInfo'' \<mapsto> ''{}'']\<rparr>"

definition world_without_refresh_token :: world where
  "world_without_refresh_token =
     example_world\<lparr>localStorage := [''authToken'' \<mapsto> ''old'', ''userInfo'' \<mapsto> ''{}'']\<rparr>"

definition refresh_then_unauthorized :: network where
  "refresh_then_unauthorized =
     scripted [Resolved unauthorized, Resolved token_response, Resolved unauthorized]"

definition refresh_then_ok :: network where
  "refresh_then_ok =
     scripted [Resolved unauthorized, Resolved token_response, Resolved empty_list_response]"

definition refresh_answered_500 :: network where
  "refresh_answered_500 = scripted [Resolved unauthorized, Resolved server_error]"

definition no_decoding :: "string \<Rightarrow> string option" where
  "no_decoding s = Some s"

definition plain_date :: "string \<Rightarrow> string" where
  "plain_date s = s"

definition throwing_run :: untyped_run where
  "throwing_run data d w = (Some TypeError, d, w)"

definition network_down :: network where
  "network_down = scripted []"

definition server_failing :: network where
  "server_failing = scripted [Resolved server_error]"

definition example_dashboard :: dashboard where
  "example_dashboard =
     \<lparr>reports = [], filteredReports = [],
      currentFilters = \<lparr>sel_status = [], sel_category = []\<rparr>\<rparr>"

definition pothole_report :: report where
  "pothole_report =
     \<lparr>report_id = 7, title = ''Pothole'', description = ''Deep hole'',
      category = ''pothole'', category_display = ''Pothole'',
      status = ''submitted'', status_display = ''Submitted'',
      priority = ''high'', priority_display = ''High'',
      report_image = None, address = Some ''Main St'', created_at = ''2025-09-13''\<rparr>"

definition trash_report :: report where
  "trash_report =
     \<lparr>report_id = 8, title = ''Trash'', description = ''Overflowing bin'',
      category = ''trash'', category_display = ''Trash'',
      status = ''resolved'', status_display = ''Resolved'',
      priority = ''low'', priority_display = ''Low'',
      report_image = None, address = None, created_at = ''2025-09-12''\<rparr>"

definition two_reports :: dashboard where
  "two_reports =
     \<lparr>reports = [pothole_report, trash_report], filteredReports = [],
      currentFilters = \<lparr>sel_status = ''submitted'', sel_category = []\<rparr>\<rparr>"

definition in_progress_report :: report where
  "in_progress_report = pothole_report\<lparr>status := ''in_progress'', status_display := ''In Progress''\<rparr>"

definition unconvertible_token_response :: response where
  "unconvertible_token_response =
     \<lparr>resp_status = 200,
      resp_body = Some (JObj [(''access'', JObj [(''toString'', JNum ''1'')])])\<rparr>"

definition exponent_token_response :: response where
  "exponent_token_response =
     \<lparr>resp_status = 200, resp_body = Some (JObj [(''access'', JNum ''1e+21'')])\<rparr>"

definition refresh_unconvertible :: network where
  "refresh_unconvertible =
     scripted [Resolved unauthorized, Resolved unconvertible_token_response,
               Resolved empty_list_response]"

definition refresh_exponent :: network where
  "refresh_exponent =
     scripted [Resolved unauthorized, Resolved exponent_token_response,
               Resolved empty_list_response]"

section \<open>Properties of AuthManager\<close>

lemma truthy_str_simps:
  "truthy_str None = False" "truthy_str (Some s) = (s \<noteq> [])"
  by (simp_all add: truthy_str_def)

lemma logout_requests: "requests (logout w) = requests w"
  by (simp add: logout_def removeItem_def)

lemma setItem_Inr:
  assumes "setItem k v w = Inr w'"
  shows "\<exists>s. to_string v = Inr s \<and> quota w ((localStorage w)(k \<mapsto> s)) \<and>
           w' = w\<lparr>localStorage := (localStorage w)(k \<mapsto> s)\<rparr>"
  using assms by (auto simp: setItem_def split: sum.splits if_splits)

lemma refreshToken_requests:
  "requests (snd (refreshToken net w)) = requests w @ refresh_sent w"
  by (auto simp: refreshToken_def refresh_sent_def fetch_def console_error_def logout_requests
      split: option.splits fetch_outcome.splits sum.splits dest!: setItem_Inr)

lemma mar_no_token:
  assumes "\<not> truthy_str (getItem w ''authToken'')"
  shows "makeAuthenticatedRequest net url opts w = (Inr None, logout w)"
  using assms by (simp add: makeAuthenticatedRequest_def truthy_str_def split: option.splits)

lemma mar_first_rejected:
  assumes "getItem w ''authToken'' = Some t" "t \<noteq> []"
    and "net (requests w) (first_request url opts t) = Rejected"
  shows "makeAuthenticatedRequest net url opts w =
           (Inl FetchFailed, w\<lparr>requests := requests w @ [first_request url opts t]\<rparr>)"
  using assms by (simp add: makeAuthenticatedRequest_def first_request_def fetch_def)

lemma mar_not_401:
  assumes "getItem w ''authToken'' = Some t" "t \<noteq> []"
    and "net (requests w) (first_request url opts t) = Resolved r" "resp_status r \<noteq> 401"
  shows "makeAuthenticatedRequest net url opts w =
           (Inr (Some r), w\<lparr>requests := requests w @ [first_request url opts t]\<rparr>)"
  using assms by (simp add: makeAuthenticatedRequest_def first_request_def fetch_def)

lemma mar_401:
  assumes "getItem w ''authToken'' = Some t" "t \<noteq> []"
    and "net (requests w) (first_request url opts t) = Resolved r" "resp_status r = 401"
    and "refreshToken net (w\<lparr>requests := requests w @ [first_request url opts t]\<rparr>) = (a, w2)"
  shows "makeAuthenticatedRequest net url opts w =
           (if truthy a then
              (case to_string a of
                 Inl e \<Rightarrow> (Inl e, w2)
               | Inr text \<Rightarrow>
                   (case net (requests w2) (retry_request url opts t text) of
                      Rejected \<Rightarrow> Inl FetchFailed | Resolved r' \<Rightarrow> Inr (Some r'),
                    w2\<lparr>requests := requests w2 @ [retry_request url opts t text]\<rparr>))
            else (Inr None, w2))"
  using assms
  by (simp add: makeAuthenticatedRequest_def first_request_def retry_request_def fetch_def
      split: fetch_outcome.splits sum.splits)

lemma sent_since_append: "requests w' = requests w @ xs \<Longrightarrow> sent_since w w' = xs"
  by (simp add: sent_since_def)

text \<open>
  \<open>refreshToken\<close> yields a truthy value exactly when a refresh token is stored, the
  refresh request is answered inside 200..299 with a JSON body whose \<open>access\<close> is
  truthy, and \<open>setItem\<close> stores it. It has then stored the text of \<open>access\<close> and sent
  the one refresh request.
\<close>

lemma refreshToken_ok:
  assumes "getItem w ''refreshToken'' = Some rt" "rt \<noteq> []"
    and "net (requests w) (refresh_request rt) = Resolved rr" "ok rr"
    and "resp_body rr = Some data" "get_field data ''access'' = Inr a"
    and "to_string a = Inr text" "quota w ((localStorage w)(''authToken'' \<mapsto> text))"
  shows "refreshToken net w =
           (a, w\<lparr>localStorage := (localStorage w)(''authToken'' \<mapsto> text),
                 requests := requests w @ [refresh_request rt]\<rparr>)"
  using assms by (simp add: refreshToken_def fetch_def setItem_def)

lemma refreshToken_truthy:
  assumes "truthy (fst (refreshToken net w))"
  shows "\<exists>rt rr data text.
           getItem w ''refreshToken'' = Some rt \<and> rt \<noteq> [] \<and>
           net (requests w) (refresh_request rt) = Resolved rr \<and> ok rr \<and>
           resp_body rr = Some data \<and>
           get_field data ''access'' = Inr (fst (refreshToken net w)) \<and>
           to_string (fst (refreshToken net w)) = Inr text \<and>
           quota w ((localStorage w)(''authToken'' \<mapsto> text)) \<and>
           snd (refreshToken net w) =
             w\<lparr>localStorage := (localStorage w)(''authToken'' \<mapsto> text),
               requests := requests w @ [refresh_request rt]\<rparr>"
proof (cases "getItem w ''refreshToken''")
  case None
  with assms show ?thesis by (simp add: refreshToken_def)
next
  case (Some rt)
  show ?thesis
  proof (cases "rt = []")
    case True
    with Some assms show ?thesis by (simp add: refreshToken_def)
  next
    case False
    note rt = Some False
    show ?thesis
    proof (cases "net (requests w) (refresh_request rt)")
      case Rejected
      with rt assms show ?thesis by (simp add: refreshToken_def fetch_def)
    next
      case (Resolved rr)
      show ?thesis
      proof (cases "ok rr")
        case False
        with rt Resolved assms show ?thesis by (simp add: refreshToken_def fetch_def)
      next
        case True
        show ?thesis
        proof (cases "resp_body rr")
          case None
          with rt Resolved True assms show ?thesis by (simp add: refreshToken_def fetch_def)
        next
          case (Some data)
          show ?thesis
          proof (cases "get_field data ''access''")
            case (Inl e)
            with rt Resolved True Some assms show ?thesis
              by (simp add: refreshToken_def fetch_def)
          next
            case (Inr a)
            note acc = Inr
            let ?w1 = "w\<lparr>requests := requests w @ [refresh_request rt]\<rparr>"
            show ?thesis
            proof (cases "setItem ''authToken'' a ?w1")
              case (Inl e)
              with rt Resolved True Some acc assms show ?thesis
                by (simp add: refreshToken_def fetch_def)
            next
              case (Inr w2)
              from setItem_Inr [OF Inr] obtain tok where
                tok: "to_string a = Inr tok"
                  "quota w ((localStorage w)(''authToken'' \<mapsto> tok))"
                  "w2 = ?w1\<lparr>localStorage := (localStorage ?w1)(''authToken'' \<mapsto> tok)\<rparr>"
                by auto
              have "refreshToken net w = (a, w2)"
                using rt Resolved True Some acc Inr by (simp add: refreshToken_def fetch_def)
              with rt Resolved True Some acc tok show ?thesis by simp
            qed
          qed
        qed
      qed
    qed
  qed
qed

lemma refresh_succeeds_iff:
  "truthy (fst (refreshToken net w)) \<longleftrightarrow>
     (\<exists>rt rr data a text.
        getItem w ''refreshToken'' = Some rt \<and> rt \<noteq> [] \<and>
        net (requests w) (refresh_request rt) = Resolved rr \<and> ok rr \<and>
        resp_body rr = Some data \<and> get_field data ''access'' = Inr a \<and> truthy a \<and>
        to_string a = Inr text \<and> quota w ((localStorage w)(''authToken'' \<mapsto> text)))"
proof
  assume t: "truthy (fst (refreshToken net w))"
  from refreshToken_truthy [OF t] t show "\<exists>rt rr data a text.
        getItem w ''refreshToken'' = Some rt \<and> rt \<noteq> [] \<and>
        net (requests w) (refresh_request rt) = Resolved rr \<and> ok rr \<and>
        resp_body rr = Some data \<and> get_field data ''access'' = Inr a \<and> truthy a \<and>
        to_string a = Inr text \<and> quota w ((localStorage w)(''authToken'' \<mapsto> text))"
    by blast
next
  assume "\<exists>rt rr data a text.
        getItem w ''refreshToken'' = Some rt \<and> rt \<noteq> [] \<and>
        net (requests w) (refresh_request rt) = Resolved rr \<and> ok rr \<and>
        resp_body rr = Some data \<and> get_field data ''access'' = Inr a \<and> truthy a \<and>
        to_string a = Inr text \<and> quota w ((localStorage w)(''authToken'' \<mapsto> text))"
  then obtain rt rr data a tok where
    h: "getItem w ''refreshToken'' = Some rt" "rt \<noteq> []"
      "net (requests w) (refresh_request rt) = Resolved rr" "ok rr"
      "resp_body rr = Some data" "get_field data ''access'' = Inr a"
      "to_string a = Inr tok" "quota w ((localStorage w)(''authToken'' \<mapsto> tok))"
    and a: "truthy a"
    by blast
  from refreshToken_ok [where net = net, OF h] a show "truthy (fst (refreshToken net w))"
    by simp
qed

lemma refreshToken_no_refresh_token:
  assumes "\<not> truthy_str (getItem w ''refreshToken'')"
  shows "refreshToken net w = (Some JNull, logout w)"
  using assms by (simp add: refreshToken_def truthy_str_def split: option.splits)

lemma refreshToken_failed:
  assumes "getItem w ''refreshToken'' = Some rt" "rt \<noteq> []"
    and "refresh_fails (net (requests w) (refresh_request rt))"
  shows "fst (refreshToken net w) = Some JNull \<and>
         localStorage (snd (refreshToken net w)) = localStorage w \<and>
         href (snd (refreshToken net w)) = href w \<and>
         requests (snd (refreshToken net w)) = requests w @ [refresh_request rt]"
  using assms
  by (auto simp: refreshToken_def refresh_fails_def fetch_def console_error_def
      split: fetch_outcome.splits)

text \<open>
  The requests of a call with a stored token: the first request, then nothing, or the
  refresh request, or the refresh request and the retry.
\<close>

lemma mar_trace:
  assumes t: "getItem w ''authToken'' = Some t" "t \<noteq> []"
  shows "\<exists>rest. requests (snd (makeAuthenticatedRequest net url opts w)) =
            requests w @ first_request url opts t # rest \<and>
          (rest = [] \<or> (\<exists>rt. rest = [refresh_request rt]) \<or>
           (\<exists>rt text. rest = [refresh_request rt, retry_request url opts t text]))"
proof -
  let ?R = "makeAuthenticatedRequest net url opts w"
  let ?q = "first_request url opts t"
  let ?w1 = "w\<lparr>requests := requests w @ [?q]\<rparr>"
  show ?thesis
  proof (cases "net (requests w) ?q")
    case Rejected
    with t show ?thesis by (simp add: mar_first_rejected)
  next
    case (Resolved r)
    show ?thesis
    proof (cases "resp_status r = 401")
      case False
      with t Resolved show ?thesis by (simp add: mar_not_401)
    next
      case True
      obtain a w2 where rt: "refreshToken net ?w1 = (a, w2)"
        by (cases "refreshToken net ?w1")
      note R = mar_401 [OF t Resolved True rt]
      show ?thesis
      proof (cases "truthy a")
        case False
        have "requests w2 = requests w @ ?q # refresh_sent ?w1"
          using refreshToken_requests [of net ?w1] rt by simp
        moreover have "refresh_sent ?w1 = [] \<or> (\<exists>rt. refresh_sent ?w1 = [refresh_request rt])"
          by (auto simp: refresh_sent_def split: option.splits)
        ultimately show ?thesis using False by (auto simp: R)
      next
        case True
        with rt have "truthy (fst (refreshToken net ?w1))" by simp
        from refreshToken_truthy [OF this] rt obtain rt' tok where
          "to_string a = Inr tok"
          "w2 = ?w1\<lparr>localStorage := (localStorage ?w1)(''authToken'' \<mapsto> tok),
                   requests := requests ?w1 @ [refresh_request rt']\<rparr>"
          by auto
        with True show ?thesis by (auto simp: R)
      qed
    qed
  qed
qed


lemma mar_refreshed:
  assumes t: "getItem w ''authToken'' = Some t" "t \<noteq> []"
    and first: "net (requests w) (first_request url opts t) = Resolved r1" "resp_status r1 = 401"
    and ok: "truthy (refreshed_token net url opts w t)"
  shows "\<exists>rt text.
           getItem w ''refreshToken'' = Some rt \<and> rt \<noteq> [] \<and>
           to_string (refreshed_token net url opts w t) = Inr text \<and>
           makeAuthenticatedRequest net url opts w =
             (case net (requests w @ [first_request url opts t, refresh_request rt])
                     (retry_request url opts t text) of
                Rejected \<Rightarrow> Inl FetchFailed
              | Resolved r2 \<Rightarrow> Inr (Some r2),
              w\<lparr>localStorage := (localStorage w)(''authToken'' \<mapsto> text),
                requests := requests w @
                  [first_request url opts t, refresh_request rt, retry_request url opts t text]\<rparr>)"
proof -
  let ?w1 = "w\<lparr>requests := requests w @ [first_request url opts t]\<rparr>"
  obtain a w2 where rt: "refreshToken net ?w1 = (a, w2)"
    by (cases "refreshToken net ?w1")
  then have a: "refreshed_token net url opts w t = a" by (simp add: refreshed_token_def)
  with ok rt have "truthy (fst (refreshToken net ?w1))" by simp
  from refreshToken_truthy [OF this] rt obtain rt' tok where
    h: "getItem ?w1 ''refreshToken'' = Some rt'" "rt' \<noteq> []" "to_string a = Inr tok"
      "w2 = ?w1\<lparr>localStorage := (localStorage ?w1)(''authToken'' \<mapsto> tok),
               requests := requests ?w1 @ [refresh_request rt']\<rparr>"
    by auto
  have "makeAuthenticatedRequest net url opts w =
             (case net (requests w @ [first_request url opts t, refresh_request rt'])
                     (retry_request url opts t tok) of
                Rejected \<Rightarrow> Inl FetchFailed
              | Resolved r2 \<Rightarrow> Inr (Some r2),
              w\<lparr>localStorage := (localStorage w)(''authToken'' \<mapsto> tok),
                requests := requests w @
                  [first_request url opts t, refresh_request rt', retry_request url opts t tok]\<rparr>)"
    using mar_401 [OF t first rt] ok a h by simp
  moreover have "getItem w ''refreshToken'' = Some rt'" using h(1) by (simp add: getItem_def)
  ultimately show ?thesis using h(2,3) a by blast
qed

text \<open>
  Claim C5. When no access token is stored (\<open>getItem\<close> gives \<open>null\<close>, or the empty
  string, which \<open>!token\<close> treats alike), \<open>makeAuthenticatedRequest\<close> resolves to
  \<open>null\<close>, removes the access token, the refresh token and the cached user profile,
  sets the location to the login page, and sends no request.
\<close>

theorem makeAuthenticatedRequest_without_token:
  assumes "\<not> truthy_str (getItem w ''authToken'')"
  shows "fst (makeAuthenticatedRequest net url opts w) = Inr None \<and>
         getItem (snd (makeAuthenticatedRequest net url opts w)) ''authToken'' = None \<and>
         getItem (snd (makeAuthenticatedRequest net url opts w)) ''refreshToken'' = None \<and>
         getItem (snd (makeAuthenticatedRequest net url opts w)) ''userInfo'' = None \<and>
         href (snd (makeAuthenticatedRequest net url opts w)) = ''/login/'' \<and>
         requests (snd (makeAuthenticatedRequest net url opts w)) = requests w \<and>
         sent_since w (snd (makeAuthenticatedRequest net url opts w)) = []"
  using assms
  by (simp add: mar_no_token logout_def removeItem_def getItem_def sent_since_def)

theorem makeAuthenticatedRequest_without_token_witness:
  "\<not> truthy_str (getItem signed_out_world ''authToken'') \<and>
   fst (makeAuthenticatedRequest refresh_then_ok ''/api/reports/user/'' example_options signed_out_world) = Inr None \<and>
   getItem (snd (makeAuthenticatedRequest refresh_then_ok ''/api/reports/user/'' example_options signed_out_world)) ''refreshToken'' = None \<and>
   getItem (snd (makeAuthenticatedRequest refresh_then_ok ''/api/reports/user/'' example_options signed_out_world)) ''userInfo'' = None \<and>
   href (snd (makeAuthenticatedRequest refresh_then_ok ''/api/reports/user/'' example_options signed_out_world)) = ''/login/'' \<and>
   requests (snd (makeAuthenticatedRequest refresh_then_ok ''/api/reports/user/'' example_options signed_out_world)) = []"
proof -
  have h: "\<not> truthy_str (getItem signed_out_world ''authToken'')"
    by (simp add: signed_out_world_def example_world_def getItem_def truthy_str_def)
  have r: "requests signed_out_world = []"
    by (simp add: signed_out_world_def example_world_def)
  show ?thesis
    using h r makeAuthenticatedRequest_without_token
      [OF h, of refresh_then_ok "''/api/reports/user/''" example_options]
    by simp
qed


lemma example_token: "getItem example_world ''authToken'' = Some ''old''"
  "getItem example_world ''refreshToken'' = Some ''ref''" "requests example_world = []"
  "localStorage example_world ''authToken'' = Some ''old''"
  "localStorage example_world ''refreshToken'' = Some ''ref''"
  by (simp_all add: example_world_def getItem_def)

lemma example_refreshed:
  "refreshed_token refresh_then_unauthorized u example_options example_world ''old'' =
     Some (JStr ''new'')"
  "refreshed_token refresh_then_ok u example_options example_world ''old'' =
     Some (JStr ''new'')"
  by (simp_all add: refreshed_token_def refreshToken_def fetch_def setItem_def to_string_def
      getItem_def example_world_def roomy_def refresh_then_unauthorized_def
      refresh_then_ok_def scripted_def token_response_def ok_def)


text \<open>
  Claim C2, amended. After a first response of status 401: when a refresh token is stored
  and the refresh attempt fails (network error, or a response outside 200..299), the call
  resolves to \<open>null\<close> and leaves \<open>localStorage\<close> (access token, refresh token, cached
  profile) and the location as they were. When no refresh token is stored,
  \<open>refreshToken\<close> calls \<open>logout\<close>: the call still resolves to \<open>null\<close>, but the three
  entries are removed and the location is set to the login page.
\<close>

theorem refresh_failure_keeps_session:
  "getItem w ''authToken'' = Some t \<and> t \<noteq> [] \<and>
   net (requests w) (first_request url opts t) = Resolved r1 \<and> resp_status r1 = 401 \<longrightarrow>
     (getItem w ''refreshToken'' = Some rt \<and> rt \<noteq> [] \<and>
      refresh_fails (net (requests w @ [first_request url opts t]) (refresh_request rt)) \<longrightarrow>
        fst (makeAuthenticatedRequest net url opts w) = Inr None \<and>
        localStorage (snd (makeAuthenticatedRequest net url opts w)) = localStorage w \<and>
        href (snd (makeAuthenticatedRequest net url opts w)) = href w) \<and>
     (\<not> truthy_str (getItem w ''refreshToken'') \<longrightarrow>
        makeAuthenticatedRequest net url opts w =
          (Inr None, logout (w\<lparr>requests := requests w @ [first_request url opts t]\<rparr>)) \<and>
        getItem (snd (makeAuthenticatedRequest net url opts w)) ''authToken'' = None \<and>
        getItem (snd (makeAuthenticatedRequest net url opts w)) ''refreshToken'' = None \<and>
        getItem (snd (makeAuthenticatedRequest net url opts w)) ''userInfo'' = None \<and>
        href (snd (makeAuthenticatedRequest net url opts w)) = ''/login/'')"
proof (intro impI conjI; elim conjE)
  let ?w1 = "w\<lparr>requests := requests w @ [first_request url opts t]\<rparr>"
  obtain a w2 where rt: "refreshToken net ?w1 = (a, w2)"
    by (cases "refreshToken net ?w1")
  assume t: "getItem w ''authToken'' = Some t" "t \<noteq> []"
    "net (requests w) (first_request url opts t) = Resolved r1" "resp_status r1 = 401"
  note R = mar_401 [OF t rt]
  {
    assume f: "getItem w ''refreshToken'' = Some rt" "rt \<noteq> []"
      "refresh_fails (net (requests w @ [first_request url opts t]) (refresh_request rt))"
    have "getItem ?w1 ''refreshToken'' = Some rt" using f(1) by (simp add: getItem_def)
    from refreshToken_failed [OF this f(2), of net] f(3) rt
    have "a = Some JNull" "localStorage w2 = localStorage w" "href w2 = href w"
      by simp_all
    then show "fst (makeAuthenticatedRequest net url opts w) = Inr None"
      "localStorage (snd (makeAuthenticatedRequest net url opts w)) = localStorage w"
      "href (snd (makeAuthenticatedRequest net url opts w)) = href w"
      by (simp_all add: R)
  }
  {
    assume n: "\<not> truthy_str (getItem w ''refreshToken'')"
    then have "\<not> truthy_str (getItem ?w1 ''refreshToken'')" by (simp add: getItem_def)
    from refreshToken_no_refresh_token [OF this, of net] rt
    have *: "a = Some JNull" "w2 = logout ?w1" by simp_all
    then show "makeAuthenticatedRequest net url opts w = (Inr None, logout ?w1)"
      by (simp add: R)
    then show "getItem (snd (makeAuthenticatedRequest net url opts w)) ''authToken'' = None"
      "getItem (snd (makeAuthenticatedRequest net url opts w)) ''refreshToken'' = None"
      "getItem (snd (makeAuthenticatedRequest net url opts w)) ''userInfo'' = None"
      "href (snd (makeAuthenticatedRequest net url opts w)) = ''/login/''"
      by (simp_all add: logout_def removeItem_def getItem_def)
  }
qed

lemma example_without_refresh_token:
  "getItem world_without_refresh_token ''authToken'' = Some ''old''"
  "\<not> truthy_str (getItem world_without_refresh_token ''refreshToken'')"
  "getItem world_without_refresh_token ''userInfo'' = Some ''{}''"
  "requests world_without_refresh_token = []"
  by (simp_all add: world_without_refresh_token_def example_world_def getItem_def truthy_str_def)

text \<open>
  Both branches at concrete inputs: a refresh answered with status 500, and a session
  without a refresh token.
\<close>

theorem refresh_failure_keeps_session_witness:
  "fst (makeAuthenticatedRequest refresh_answered_500 ''/api/reports/user/'' example_options
          example_world) = Inr None \<and>
   localStorage (snd (makeAuthenticatedRequest refresh_answered_500 ''/api/reports/user/''
          example_options example_world)) = localStorage example_world \<and>
   href (snd (makeAuthenticatedRequest refresh_answered_500 ''/api/reports/user/''
          example_options example_world)) = ''/citizen/dashboard/'' \<and>
   getItem (snd (makeAuthenticatedRequest refresh_answered_500 ''/api/reports/user/''
          example_options world_without_refresh_token)) ''userInfo'' = None"
proof -
  have a: "fst (makeAuthenticatedRequest refresh_answered_500 ''/api/reports/user/'' example_options
          example_world) = Inr None \<and>
   localStorage (snd (makeAuthenticatedRequest refresh_answered_500 ''/api/reports/user/''
          example_options example_world)) = localStorage example_world \<and>
   href (snd (makeAuthenticatedRequest refresh_answered_500 ''/api/reports/user/''
          example_options example_world)) = href example_world"
    using refresh_failure_keeps_session
      [of example_world "''old''" refresh_answered_500 "''/api/reports/user/''" example_options
        unauthorized "''ref''"]
    by (simp add: example_token refresh_answered_500_def scripted_def unauthorized_def
        server_error_def ok_def refresh_fails_def truthy_str_simps)
  have b: "getItem (snd (makeAuthenticatedRequest refresh_answered_500 ''/api/reports/user/''
          example_options world_without_refresh_token)) ''userInfo'' = None"
    using refresh_failure_keeps_session
      [of world_without_refresh_token "''old''" refresh_answered_500 "''/api/reports/user/''"
        example_options unauthorized "''ref''"]
    by (simp add: refresh_answered_500_def scripted_def unauthorized_def logout_def
        removeItem_def getItem_def truthy_str_def world_without_refresh_token_def
        example_world_def)
  have c: "href example_world = ''/citizen/dashboard/''"
    by (simp add: example_world_def)
  show ?thesis using a b c by simp
qed

text \<open>
  Claim C2 as stated counts an absent refresh token among the failures that leave the
  session unchanged. With an access token and a cached profile but no refresh token, a
  401 clears the session.
\<close>

theorem absent_refresh_token_counterexample:
  "fst (makeAuthenticatedRequest refresh_answered_500 ''/api/reports/user/'' example_options
          world_without_refresh_token) = Inr None \<and>
   getItem world_without_refresh_token ''authToken'' = Some ''old'' \<and>
   getItem (snd (makeAuthenticatedRequest refresh_answered_500 ''/api/reports/user/''
          example_options world_without_refresh_token)) ''authToken'' = None \<and>
   getItem world_without_refresh_token ''userInfo'' = Some ''{}'' \<and>
   getItem (snd (makeAuthenticatedRequest refresh_answered_500 ''/api/reports/user/''
          example_options world_without_refresh_token)) ''userInfo'' = None \<and>
   href world_without_refresh_token = ''/citizen/dashboard/'' \<and>
   href (snd (makeAuthenticatedRequest refresh_answered_500 ''/api/reports/user/''
          example_options world_without_refresh_token)) = ''/login/''"
proof -
  let ?w1 = "world_without_refresh_token
               \<lparr>requests := requests world_without_refresh_token @
                  [first_request ''/api/reports/user/'' example_options ''old'']\<rparr>"
  have "\<not> truthy_str (getItem ?w1 ''refreshToken'')"
    using example_without_refresh_token(2) by (simp add: getItem_def)
  then have "refreshToken refresh_answered_500 ?w1 = (Some JNull, logout ?w1)"
    by (rule refreshToken_no_refresh_token)
  from mar_401 [OF example_without_refresh_token(1) _ _ _ this, of unauthorized]
  have "makeAuthenticatedRequest refresh_answered_500 ''/api/reports/user/'' example_options
          world_without_refresh_token = (Inr None, logout ?w1)"
    by (simp add: example_without_refresh_token refresh_answered_500_def scripted_def unauthorized_def)
  then show ?thesis
    by (simp add: example_without_refresh_token logout_def removeItem_def getItem_def)
      (simp add: world_without_refresh_token_def example_world_def)
qed

text \<open>
  Claim C10. After a 401 and a successful refresh the call has sent three requests, and
  the retry carries \<open>Authorization: Bearer\<close> followed by the text of the refreshed token
  (the text now in \<open>localStorage\<close>), even when the caller supplied an \<open>Authorization\<close>
  header of their own, which the first attempt carried instead (caller headers win in
  the merge). Every other header, the URL, the method and the body of the retry are
  those of the first attempt.
\<close>

theorem retry_carries_refreshed_token:
  "getItem w ''authToken'' = Some t \<and> t \<noteq> [] \<and>
   net (requests w) (first_request url opts t) = Resolved r1 \<and> resp_status r1 = 401 \<and>
   truthy (refreshed_token net url opts w t) \<longrightarrow>
     (\<exists>rt text.
        to_string (refreshed_token net url opts w t) = Inr text \<and>
        getItem (snd (makeAuthenticatedRequest net url opts w)) ''authToken'' = Some text \<and>
        sent_since w (snd (makeAuthenticatedRequest net url opts w)) =
          [first_request url opts t, refresh_request rt, retry_request url opts t text] \<and>
        req_headers (retry_request url opts t text) ''Authorization'' =
          Some (''Bearer '' @ text) \<and>
        req_headers (first_request url opts t) ''Authorization'' =
          (case spread_headers opts ''Authorization'' of
             None \<Rightarrow> Some (''Bearer '' @ t)
           | Some v \<Rightarrow> Some v) \<and>
        (\<forall>k. k \<noteq> ''Authorization'' \<longrightarrow>
           req_headers (retry_request url opts t text) k =
             req_headers (first_request url opts t) k) \<and>
        req_url (retry_request url opts t text) = req_url (first_request url opts t) \<and>
        req_method (retry_request url opts t text) = req_method (first_request url opts t) \<and>
        req_body (retry_request url opts t text) = req_body (first_request url opts t))"
proof (intro impI)
  assume h: "getItem w ''authToken'' = Some t \<and> t \<noteq> [] \<and>
   net (requests w) (first_request url opts t) = Resolved r1 \<and> resp_status r1 = 401 \<and>
   truthy (refreshed_token net url opts w t)"
  then have hs: "getItem w ''authToken'' = Some t" "t \<noteq> []"
    "net (requests w) (first_request url opts t) = Resolved r1" "resp_status r1 = 401"
    "truthy (refreshed_token net url opts w t)"
    by simp_all
  from mar_refreshed [where net = net, OF hs] obtain rt tok where
    r: "to_string (refreshed_token net url opts w t) = Inr tok"
      "makeAuthenticatedRequest net url opts w =
             (case net (requests w @ [first_request url opts t, refresh_request rt])
                     (retry_request url opts t tok) of
                Rejected \<Rightarrow> Inl FetchFailed
              | Resolved r2 \<Rightarrow> Inr (Some r2),
              w\<lparr>localStorage := (localStorage w)(''authToken'' \<mapsto> tok),
                requests := requests w @
                  [first_request url opts t, refresh_request rt, retry_request url opts t tok]\<rparr>)"
    by blast
  have "to_string (refreshed_token net url opts w t) = Inr tok \<and>
        getItem (snd (makeAuthenticatedRequest net url opts w)) ''authToken'' = Some tok \<and>
        sent_since w (snd (makeAuthenticatedRequest net url opts w)) =
          [first_request url opts t, refresh_request rt, retry_request url opts t tok] \<and>
        req_headers (retry_request url opts t tok) ''Authorization'' =
          Some (''Bearer '' @ tok) \<and>
        req_headers (first_request url opts t) ''Authorization'' =
          (case spread_headers opts ''Authorization'' of
             None \<Rightarrow> Some (''Bearer '' @ t)
           | Some v \<Rightarrow> Some v) \<and>
        (\<forall>k. k \<noteq> ''Authorization'' \<longrightarrow>
           req_headers (retry_request url opts t tok) k =
             req_headers (first_request url opts t) k) \<and>
        req_url (retry_request url opts t tok) = req_url (first_request url opts t) \<and>
        req_method (retry_request url opts t tok) = req_method (first_request url opts t) \<and>
        req_body (retry_request url opts t tok) = req_body (first_request url opts t)"
    using r(1)
    by (simp add: r(2) getItem_def sent_since_def retry_request_def first_request_def
        build_request_def auth_headers_def map_add_def split: option.splits)
  then show "\<exists>rt text.
        to_string (refreshed_token net url opts w t) = Inr text \<and>
        getItem (snd (makeAuthenticatedRequest net url opts w)) ''authToken'' = Some text \<and>
        sent_since w (snd (makeAuthenticatedRequest net url opts w)) =
          [first_request url opts t, refresh_request rt, retry_request url opts t text] \<and>
        req_headers (retry_request url opts t text) ''Authorization'' =
          Some (''Bearer '' @ text) \<and>
        req_headers (first_request url opts t) ''Authorization'' =
          (case spread_headers opts ''Authorization'' of
             None \<Rightarrow> Some (''Bearer '' @ t)
           | Some v \<Rightarrow> Some v) \<and>
        (\<forall>k. k \<noteq> ''Authorization'' \<longrightarrow>
           req_headers (retry_request url opts t text) k =
             req_headers (first_request url opts t) k) \<and>
        req_url (retry_request url opts t text) = req_url (first_request url opts t) \<and>
        req_method (retry_request url opts t text) = req_method (first_request url opts t) \<and>
        req_body (retry_request url opts t text) = req_body (first_request url opts t)"
    by blast
qed

text \<open>
  The example options carry \<open>Authorization: Token caller\<close>: the first attempt sends
  it, the retry sends the refreshed bearer token and keeps the caller's \<open>Accept\<close>.
\<close>

theorem retry_carries_refreshed_token_witness:
  "req_headers (sent_since example_world (snd (makeAuthenticatedRequest refresh_then_ok
      ''/api/reports/user/'' example_options example_world)) ! 2) ''Authorization'' =
     Some ''Bearer new'' \<and>
   req_headers (sent_since example_world (snd (makeAuthenticatedRequest refresh_then_ok
      ''/api/reports/user/'' example_options example_world)) ! 0) ''Authorization'' =
     Some ''Token caller'' \<and>
   req_headers (sent_since example_world (snd (makeAuthenticatedRequest refresh_then_ok
      ''/api/reports/user/'' example_options example_world)) ! 2) ''Accept'' =
     Some ''text/html''"
proof -
  have h: "getItem example_world ''authToken'' = Some ''old'' \<and> ''old'' \<noteq> [] \<and>
    refresh_then_ok (requests example_world)
      (first_request ''/api/reports/user/'' example_options ''old'') = Resolved unauthorized \<and>
    resp_status unauthorized = 401 \<and>
    truthy (refreshed_token refresh_then_ok ''/api/reports/user/'' example_options
      example_world ''old'')"
    using example_refreshed [of "''/api/reports/user/''"]
    by (simp add: example_token) (simp add: refresh_then_ok_def scripted_def unauthorized_def)
  from retry_carries_refreshed_token
    [of example_world "''old''" refresh_then_ok "''/api/reports/user/''"
      example_options unauthorized] h
  obtain rt tok where
    r: "to_string (refreshed_token refresh_then_ok ''/api/reports/user/''
          example_options example_world ''old'') = Inr tok"
      "sent_since example_world (snd (makeAuthenticatedRequest refresh_then_ok
          ''/api/reports/user/'' example_options example_world)) =
        [first_request ''/api/reports/user/'' example_options ''old'', refresh_request rt,
         retry_request ''/api/reports/user/'' example_options ''old'' tok]"
    by blast
  from r(1) have tok: "tok = ''new''"
    by (simp add: example_refreshed to_string_def)
  show ?thesis
    unfolding r(2) tok
    by (simp add: first_request_def retry_request_def build_request_def
        auth_headers_def spread_headers_def example_options_def)
qed

text \<open>
  Two refresh responses inside 200..299 with a truthy \<open>access\<close>. An object with a
  property \<open>toString\<close> of its own cannot be stored: \<open>refreshToken\<close> catches the error
  and yields \<open>null\<close>, the old token stays, and no retry is sent. A number prints as
  JavaScript prints it.
\<close>

lemma unconvertible_token_not_stored:
  "fst (makeAuthenticatedRequest refresh_unconvertible ''/api/reports/user/'' example_options
          example_world) = Inr None \<and>
   getItem (snd (makeAuthenticatedRequest refresh_unconvertible ''/api/reports/user/''
          example_options example_world)) ''authToken'' = Some ''old'' \<and>
   length (sent_since example_world (snd (makeAuthenticatedRequest refresh_unconvertible
          ''/api/reports/user/'' example_options example_world))) = 2 \<and>
   \<not> truthy (refreshed_token refresh_unconvertible ''/api/reports/user/'' example_options
          example_world ''old'')"
  by (simp add: makeAuthenticatedRequest_def refreshed_token_def refreshToken_def fetch_def
      setItem_def to_string_def console_error_def getItem_def sent_since_def
      example_world_def refresh_unconvertible_def scripted_def unauthorized_def
      unconvertible_token_response_def ok_def first_request_def)

lemma exponent_token_text:
  "req_headers (sent_since example_world (snd (makeAuthenticatedRequest refresh_exponent
      ''/api/reports/user/'' example_options example_world)) ! 2) ''Authorization'' =
     Some ''Bearer 1e+21'' \<and>
   getItem (snd (makeAuthenticatedRequest refresh_exponent ''/api/reports/user/''
          example_options example_world)) ''authToken'' = Some ''1e+21''"
  by (simp add: makeAuthenticatedRequest_def refreshToken_def fetch_def
      setItem_def to_string_def getItem_def sent_since_def roomy_def
      example_world_def refresh_exponent_def scripted_def unauthorized_def
      exponent_token_response_def ok_def build_request_def Let_def)

section \<open>Properties of apiCall and loadReports\<close>

lemma classList_add_frame:
  "requests (classList_add i c w) = requests w"
  "localStorage (classList_add i c w) = localStorage w"
  by (simp_all add: classList_add_def split: option.splits)

lemma classList_remove_frame:
  "requests (classList_remove i c w) = requests w"
  "localStorage (classList_remove i c w) = localStorage w"
  by (simp_all add: classList_remove_def split: option.splits)

lemma showToast_frame:
  "requests (showToast m ty w) = requests w"
  "document (showToast m ty w) = document w"
  by (simp_all add: showToast_def split: option.splits)

lemma indicator_cleared_add: "indicator_cleared i (classList_add i ''hidden'' w)"
  by (simp add: indicator_cleared_def classList_add_def split: option.splits)

lemma apiCall_try_requests:
  "requests (snd (apiCall_try net endpoint opts token w)) =
     requests w @ [api_request endpoint opts token]"
  by (simp add: apiCall_try_def fetch_def showLoading_def classList_remove_frame
      removeAuthToken_def removeItem_def split: fetch_outcome.splits option.splits)

lemma apiCall_requests:
  "requests (snd (apiCall net endpoint opts w)) =
     requests w @ [api_request endpoint opts (getAuthToken w)]"
proof (cases "apiCall_try net endpoint opts (getAuthToken w) w")
  case (Pair r w1)
  with apiCall_try_requests [of net endpoint opts "getAuthToken w" w]
  have "requests w1 = requests w @ [api_request endpoint opts (getAuthToken w)]" by simp
  with Pair show ?thesis
    by (cases r)
      (simp_all add: apiCall_def hideLoading_def classList_add_frame showToast_frame
        console_error_def)
qed

text \<open>
  Claim C9. Whatever the network answers and whatever path \<open>apiCall\<close> or
  \<open>loadReports\<close> takes (success, rejected \<open>fetch\<close>, 401, response that is not ok, body
  that does not parse, body that is not a list of reports, cookie that does not decode,
  missing page element), the state it
  leaves has its loading element hidden: \<open>loading-spinner\<close> for \<open>apiCall\<close>,
  \<open>reports-loading\<close> for \<open>loadReports\<close>. Both functions are total, so they return.
\<close>

theorem loading_indicator_always_cleared:
  "indicator_cleared ''loading-spinner'' (snd (apiCall net endpoint opts w)) \<and>
   indicator_cleared ''reports-loading''
     (snd (loadReports decodeURIComponent formatDate untyped_run net' d w'))"
proof
  show "indicator_cleared ''loading-spinner'' (snd (apiCall net endpoint opts w))"
  proof (cases "apiCall_try net endpoint opts (getAuthToken w) w")
    case (Pair result w1)
    show ?thesis
    proof (cases result)
      case (Inl error)
      with Pair show ?thesis
        by (simp add: apiCall_def hideLoading_def indicator_cleared_add)
    next
      case (Inr data)
      with Pair show ?thesis
        by (simp add: apiCall_def hideLoading_def indicator_cleared_add)
    qed
  qed
next
  show "indicator_cleared ''reports-loading''
          (snd (loadReports decodeURIComponent formatDate untyped_run net' d w'))"
  proof (cases "loadReports_try decodeURIComponent formatDate untyped_run net' d w'")
    case (fields thrown d1 w1)
    show ?thesis
    proof (cases thrown)
      case None
      with fields show ?thesis
        by (simp add: loadReports_def dashboard_hideLoading_def indicator_cleared_add)
    next
      case (Some error)
      with fields show ?thesis
        by (simp add: loadReports_def dashboard_hideLoading_def indicator_cleared_add)
    qed
  qed
qed

lemma trim_example: "trim ''csrftoken=abc'' = ''csrftoken=abc''"
  by (simp add: trim_def strip_start.simps strip_end.simps leading_space_def
      trailing_space_def white_space_def suffix_to_prefix)

lemma example_spinner:
  "document example_world ''loading-spinner'' = Some example_element"
  "document example_world ''reports-loading'' = Some example_element"
  "document example_world ''toast-container'' = Some example_element"
  "document example_world ''reports-container'' = Some example_element"
  "document example_world ''no-reports'' = Some example_element"
  "requests example_world = []"
  "cookie example_world = ''csrftoken=abc''"
  by (simp_all add: example_world_def example_document_def)

text \<open>
  Two failing runs on a page that has both elements: \<open>apiCall\<close> with the network down
  (it rethrows) and \<open>loadReports\<close> against a server answering 500.
\<close>

theorem loading_indicator_always_cleared_witness:
  "fst (apiCall network_down ''/reports/'' example_options example_world) = Inl FetchFailed \<and>
   (\<exists>el. document (snd (apiCall network_down ''/reports/'' example_options example_world))
           ''loading-spinner'' = Some el \<and> ''hidden'' \<in> classList el) \<and>
   (\<exists>el. document (snd (loadReports no_decoding plain_date throwing_run server_failing example_dashboard
           example_world)) ''reports-loading'' = Some el \<and> ''hidden'' \<in> classList el)"
proof -
  have a: "fst (apiCall network_down ''/reports/'' example_options example_world) = Inl FetchFailed"
    "document (snd (apiCall network_down ''/reports/'' example_options example_world))
       ''loading-spinner'' \<noteq> None"
    by (simp_all add: apiCall_def apiCall_try_def fetch_def network_down_def scripted_def
        showLoading_def hideLoading_def classList_add_def classList_remove_def showToast_def
        console_error_def example_spinner)
  have b: "document (snd (loadReports no_decoding plain_date throwing_run server_failing example_dashboard
           example_world)) ''reports-loading'' \<noteq> None"
    by (simp add: loadReports_def loadReports_try_def getCookie_def trim_example
        no_decoding_def fetch_def server_failing_def scripted_def server_error_def ok_def
        dashboard_hideLoading_def showNoReports_def classList_add_def classList_remove_def
        showToast_def console_error_def example_spinner)
  show ?thesis
    using a b loading_indicator_always_cleared
      [of network_down "''/reports/''" example_options example_world no_decoding plain_date
        throwing_run server_failing example_dashboard example_world]
    by (auto simp: indicator_cleared_def)
qed

text \<open>
  Claim C6. The request \<open>makeAuthenticatedRequest\<close> sends first has the header map
  \<open>{Authorization: Bearer token}\<close> overridden by the caller's headers; the request
  \<open>apiCall\<close> sends has the default headers (the content type, and the bearer token
  when one is stored) overridden by the caller's headers. On every key the caller
  supplies, the caller's value is sent; on every other key, the default. The retry after
  a refresh is the subject of claim C10.
\<close>

theorem caller_headers_win:
  "(getItem w ''authToken'' = Some t \<and> t \<noteq> [] \<longrightarrow>
      (\<exists>rest. sent_since w (snd (makeAuthenticatedRequest net url opts w)) =
                first_request url opts t # rest)) \<and>
   req_headers (first_request url opts t) =
     [''Authorization'' \<mapsto> ''Bearer '' @ t] ++ spread_headers opts \<and>
   sent_since w (snd (apiCall net endpoint opts w)) =
     [api_request endpoint opts (getAuthToken w)] \<and>
   req_headers (api_request endpoint opts (getAuthToken w)) =
     defaultHeaders (getAuthToken w) ++ spread_headers opts \<and>
   (getAuthToken w = Some t \<and> t \<noteq> [] \<longrightarrow>
      defaultHeaders (getAuthToken w) =
        [''Content-Type'' \<mapsto> ''application/json'', ''Authorization'' \<mapsto> ''Bearer '' @ t]) \<and>
   (\<forall>k v. spread_headers opts k = Some v \<longrightarrow>
      req_headers (first_request url opts t) k = Some v \<and>
      req_headers (api_request endpoint opts (getAuthToken w)) k = Some v) \<and>
   (\<forall>k. spread_headers opts k = None \<longrightarrow>
      req_headers (first_request url opts t) k = [''Authorization'' \<mapsto> ''Bearer '' @ t] k \<and>
      req_headers (api_request endpoint opts (getAuthToken w)) k =
        defaultHeaders (getAuthToken w) k)"
proof -
  have 1: "getItem w ''authToken'' = Some t \<and> t \<noteq> [] \<longrightarrow>
      (\<exists>rest. sent_since w (snd (makeAuthenticatedRequest net url opts w)) =
                first_request url opts t # rest)"
  proof (intro impI, elim conjE)
    assume t: "getItem w ''authToken'' = Some t" "t \<noteq> []"
    from mar_trace [OF t, of net url opts] obtain rest where
      "requests (snd (makeAuthenticatedRequest net url opts w)) =
         requests w @ first_request url opts t # rest" by blast
    then have "sent_since w (snd (makeAuthenticatedRequest net url opts w)) =
         first_request url opts t # rest" by (rule sent_since_append)
    then show "\<exists>rest. sent_since w (snd (makeAuthenticatedRequest net url opts w)) =
                first_request url opts t # rest" by blast
  qed
  have 2: "sent_since w (snd (apiCall net endpoint opts w)) =
     [api_request endpoint opts (getAuthToken w)]"
    using apiCall_requests [of net endpoint opts w] by (rule sent_since_append)
  have 3: "getAuthToken w = Some t \<and> t \<noteq> [] \<longrightarrow>
      defaultHeaders (getAuthToken w) =
        [''Content-Type'' \<mapsto> ''application/json'', ''Authorization'' \<mapsto> ''Bearer '' @ t]"
    by (simp add: defaultHeaders_def)
  show ?thesis
    using 1 2 3
    by (simp add: first_request_def api_request_def build_request_def auth_headers_def
        map_add_def)
qed

text \<open>
  The example options supply \<open>Authorization\<close> and \<open>Accept\<close>: both reach the server
  unchanged, next to the default content type.
\<close>

theorem caller_headers_win_witness:
  "req_headers (hd (sent_since example_world
      (snd (makeAuthenticatedRequest refresh_then_ok ''/api/reports/user/'' example_options
              example_world)))) ''Authorization'' = Some ''Token caller'' \<and>
   req_headers (hd (sent_since example_world
      (snd (apiCall refresh_then_ok ''/reports/'' example_options example_world))))
        ''Authorization'' = Some ''Token caller'' \<and>
   req_headers (hd (sent_since example_world
      (snd (apiCall refresh_then_ok ''/reports/'' example_options example_world))))
        ''Content-Type'' = Some ''application/json'' \<and>
   req_headers (hd (sent_since example_world
      (snd (apiCall refresh_then_ok ''/reports/'' example_options example_world))))
        ''Accept'' = Some ''text/html''"
  using caller_headers_win
    [of example_world "''old''" refresh_then_ok "''/api/reports/user/''" example_options
      "''/reports/''"]
  by (auto simp: example_token getAuthToken_def spread_headers_def example_options_def
      defaultHeaders_def map_add_def)

section \<open>Properties of CitizenDashboard\<close>

text \<open>
  The callback with its early returns is the condition of the specification.
\<close>

lemma filter_callback_spec:
  "filter_callback f = spec_visible (sel_status f) (sel_category f)"
  by (rule ext) (auto simp: filter_callback_def spec_visible_def)

lemma applyFilters_filtered:
  "filteredReports (fst (applyFilters formatDate d w)) =
     filter (spec_visible (sel_status (currentFilters d)) (sel_category (currentFilters d)))
       (reports d)"
  by (simp add: applyFilters_def Let_def filter_callback_spec)

text \<open>
  Claim C3. \<open>applyFilters\<close> sets \<open>filteredReports\<close> to the reports that satisfy the
  condition of the specification (status selector empty or equal to the report's status,
  and category selector empty or equal to the report's category), in the order of
  \<open>reports\<close>, and changes neither \<open>reports\<close> nor the selectors. After a change of one
  selector, every visible report satisfies the other, unchanged selector, and every
  report that satisfies both selectors is visible.
\<close>

theorem applyFilters_is_spec_filter:
  "filteredReports (fst (applyFilters formatDate d w)) =
     filter (spec_visible (sel_status (currentFilters d)) (sel_category (currentFilters d)))
       (reports d) \<and>
   subseq (filteredReports (fst (applyFilters formatDate d w))) (reports d) \<and>
   reports (fst (applyFilters formatDate d w)) = reports d \<and>
   currentFilters (fst (applyFilters formatDate d w)) = currentFilters d \<and>
   (\<forall>r \<in> set (filteredReports (fst (on_status_change formatDate v d w))).
      sel_category (currentFilters d) = [] \<or> category r = sel_category (currentFilters d)) \<and>
   (\<forall>r \<in> set (reports d).
      (sel_category (currentFilters d) = [] \<or> category r = sel_category (currentFilters d)) \<and>
      (v = [] \<or> status r = v) \<longrightarrow>
      r \<in> set (filteredReports (fst (on_status_change formatDate v d w)))) \<and>
   (\<forall>r \<in> set (filteredReports (fst (on_category_change formatDate v d w))).
      sel_status (currentFilters d) = [] \<or> status r = sel_status (currentFilters d)) \<and>
   (\<forall>r \<in> set (reports d).
      (sel_status (currentFilters d) = [] \<or> status r = sel_status (currentFilters d)) \<and>
      (v = [] \<or> category r = v) \<longrightarrow>
      r \<in> set (filteredReports (fst (on_category_change formatDate v d w))))"
proof -
  have 1: "reports (fst (applyFilters formatDate d w)) = reports d"
    "currentFilters (fst (applyFilters formatDate d w)) = currentFilters d"
    by (simp_all add: applyFilters_def Let_def)
  have 2: "subseq (filteredReports (fst (applyFilters formatDate d w))) (reports d)"
    by (simp add: applyFilters_filtered)
  show ?thesis
    using 1 2
    by (simp add: applyFilters_filtered on_status_change_def on_category_change_def)
      (auto simp: spec_visible_def)
qed

text \<open>
  The example of the specification: with the status selector \<open>submitted\<close> only the
  first of the two reports is visible.
\<close>

theorem applyFilters_is_spec_filter_witness:
  "filteredReports (fst (applyFilters plain_date two_reports example_world)) = [pothole_report] \<and>
   filteredReports (fst (on_category_change plain_date ''trash'' two_reports example_world)) = [] \<and>
   filteredReports (fst (on_status_change plain_date [] two_reports example_world)) =
     [pothole_report, trash_report]"
proof -
  have s: "status pothole_report = ''submitted''" "status trash_report = ''resolved''"
    "category pothole_report = ''pothole''" "category trash_report = ''trash''"
    by (simp_all add: pothole_report_def trash_report_def)
  have d: "reports two_reports = [pothole_report, trash_report]"
    "sel_status (currentFilters two_reports) = ''submitted''"
    "sel_category (currentFilters two_reports) = []"
    by (simp_all add: two_reports_def)
  have 1: "filteredReports (fst (applyFilters plain_date two_reports example_world)) =
      [pothole_report]"
    using applyFilters_is_spec_filter [of plain_date two_reports example_world]
    by (simp add: d s spec_visible_def)
  have 2: "filteredReports (fst (on_category_change plain_date ''trash'' two_reports example_world)) = []"
    by (simp add: on_category_change_def applyFilters_def Let_def filter_callback_def d s)
  have 3: "filteredReports (fst (on_status_change plain_date [] two_reports example_world)) =
     [pothole_report, trash_report]"
    by (simp add: on_status_change_def applyFilters_def Let_def filter_callback_def d s)
  show ?thesis using 1 2 3 by simp
qed

lemma compute_stats_reports:
  "reports d = reports d' \<Longrightarrow> compute_stats d = compute_stats d'"
  by (simp add: compute_stats_def)

lemma updateStats_reports:
  "reports d = reports d' \<Longrightarrow> updateStats d w = updateStats d' w"
  by (simp add: updateStats_def compute_stats_def)

text \<open>
  Claim C4. The counts \<open>updateStats\<close> computes, and the whole effect of
  \<open>updateStats\<close>, are the same for any two values of the filter selectors; the change
  handlers and \<open>applyFilters\<close> leave the counts as they are. On a list of two reports
  with status \<open>submitted\<close> and \<open>resolved\<close> the counts are total 2, submitted 1,
  in_progress 0, resolved 1.
\<close>

theorem stats_ignore_filters:
  "compute_stats (d\<lparr>currentFilters := f\<rparr>) = compute_stats (d\<lparr>currentFilters := f'\<rparr>) \<and>
   updateStats (d\<lparr>currentFilters := f\<rparr>) w = updateStats (d\<lparr>currentFilters := f'\<rparr>) w \<and>
   compute_stats (fst (on_status_change formatDate v d w)) = compute_stats d \<and>
   compute_stats (fst (on_category_change formatDate v d w)) = compute_stats d \<and>
   compute_stats (fst (applyFilters formatDate d w)) = compute_stats d \<and>
   total (compute_stats d) = length (reports d) \<and>
   (reports d = [r1, r2] \<and> status r1 = ''submitted'' \<and> status r2 = ''resolved'' \<longrightarrow>
      compute_stats d = \<lparr>total = 2, submitted = 1, in_progress = 0, resolved = 1\<rparr>)"
proof -
  have 1: "compute_stats (d\<lparr>currentFilters := f\<rparr>) = compute_stats (d\<lparr>currentFilters := f'\<rparr>)"
    by (rule compute_stats_reports) simp
  have 2: "updateStats (d\<lparr>currentFilters := f\<rparr>) w = updateStats (d\<lparr>currentFilters := f'\<rparr>) w"
    by (rule updateStats_reports) simp
  have 3: "compute_stats (fst (on_status_change formatDate v d w)) = compute_stats d"
    by (rule compute_stats_reports) (simp add: on_status_change_def applyFilters_def Let_def)
  have 4: "compute_stats (fst (on_category_change formatDate v d w)) = compute_stats d"
    by (rule compute_stats_reports) (simp add: on_category_change_def applyFilters_def Let_def)
  have 5: "compute_stats (fst (applyFilters formatDate d w)) = compute_stats d"
    by (rule compute_stats_reports) (simp add: applyFilters_def Let_def)
  have 6: "reports d = [r1, r2] \<and> status r1 = ''submitted'' \<and> status r2 = ''resolved'' \<longrightarrow>
      compute_stats d = \<lparr>total = 2, submitted = 1, in_progress = 0, resolved = 1\<rparr>"
    by (simp add: compute_stats_def)
  show ?thesis using 1 2 3 4 5 6 by (simp add: compute_stats_def)
qed

lemma example_counts:
  "document example_world ''total-reports'' = Some example_element"
  "document example_world ''pending-reports'' = Some example_element"
  "document example_world ''in-progress-reports'' = Some example_element"
  "document example_world ''resolved-reports'' = Some example_element"
  by (simp_all add: example_world_def example_document_def)

text \<open>
  The example list, and the text \<open>updateStats\<close> writes into the four count elements.
\<close>

theorem stats_ignore_filters_witness:
  "compute_stats two_reports = \<lparr>total = 2, submitted = 1, in_progress = 0, resolved = 1\<rparr> \<and>
   compute_stats (fst (on_status_change plain_date ''resolved'' two_reports example_world)) =
     \<lparr>total = 2, submitted = 1, in_progress = 0, resolved = 1\<rparr> \<and>
   fst (updateStats two_reports example_world) = None \<and>
   map_option content (document (snd (updateStats two_reports example_world)) ''total-reports'') =
     Some (Text ''2'') \<and>
   map_option content (document (snd (updateStats two_reports example_world)) ''pending-reports'') =
     Some (Text ''1'') \<and>
   map_option content (document (snd (updateStats two_reports example_world)) ''in-progress-reports'') =
     Some (Text ''0'') \<and>
   map_option content (document (snd (updateStats two_reports example_world)) ''resolved-reports'') =
     Some (Text ''1'')"
proof -
  have d: "reports two_reports = [pothole_report, trash_report]"
    "status pothole_report = ''submitted''" "status trash_report = ''resolved''"
    by (simp_all add: two_reports_def pothole_report_def trash_report_def)
  have c: "compute_stats two_reports = \<lparr>total = 2, submitted = 1, in_progress = 0, resolved = 1\<rparr>"
    "compute_stats (fst (on_status_change plain_date ''resolved'' two_reports example_world)) =
     \<lparr>total = 2, submitted = 1, in_progress = 0, resolved = 1\<rparr>"
    using stats_ignore_filters
      [where d = two_reports and w = example_world and formatDate = plain_date
         and v = "''resolved''" and ?r1.0 = pothole_report and ?r2.0 = trash_report] d
    by simp_all
  have u: "updateStats two_reports example_world =
     (None, example_world\<lparr>document := (document example_world)
        (''total-reports'' \<mapsto> example_element\<lparr>content := Text ''2''\<rparr>,
         ''pending-reports'' \<mapsto> example_element\<lparr>content := Text ''1''\<rparr>,
         ''in-progress-reports'' \<mapsto> example_element\<lparr>content := Text ''0''\<rparr>,
         ''resolved-reports'' \<mapsto> example_element\<lparr>content := Text ''1''\<rparr>)\<rparr>)"
    by (simp add: updateStats_def c and_then_def set_textContent_def example_counts
        show_nat.simps)
  show ?thesis using c by (simp add: u)
qed

text \<open>Digits only: the decimal text of a number has no letter.\<close>

lemma set_show_nat: "set (show_nat n) \<subseteq> set ''0123456789''"
proof (induction n rule: show_nat.induct)
  case (1 n)
  have d: "\<And>k. k < 10 \<Longrightarrow> ''0123456789'' ! k \<in> set ''0123456789''"
    by (rule nth_mem) simp
  show ?case
  proof (cases "n < 10")
    case True
    then show ?thesis using d [of n] by (subst show_nat.simps) simp
  next
    case False
    have "n mod 10 < 10" by simp
    from d [OF this] 1 False show ?thesis by (subst show_nat.simps) simp
  qed
qed

lemma no_E_in_show_int: "CHR ''E'' \<notin> set (show_int i)"
  using set_show_nat [of "nat i"] set_show_nat [of "nat (- i)"]
  by (auto simp: show_int_def)

lemma sublist_trans: "sublist xs ys \<Longrightarrow> sublist ys zs \<Longrightarrow> sublist xs zs"
  unfolding sublist_def by (metis append.assoc)

lemma sublist_concat_member: "x \<in> set xss \<Longrightarrow> sublist x (concat xss)"
  by (induction xss) (auto simp: sublist_append)

lemma view_details_in_button: "sublist ''View Details'' (view_button r)"
proof -
  have "sublist ''View Details''
          ''\<newline>                        <i class=\"fas fa-eye\"></i> View Details''"
    by (simp add: sublist_code)
  moreover have "sublist ''\<newline>                        <i class=\"fas fa-eye\"></i> View Details''
          (view_button r)"
    unfolding view_button_def by (rule sublist_concat_member) simp
  ultimately show ?thesis by (rule sublist_trans)
qed

lemma edit_in_button: "sublist ''Edit'' (edit_button r)"
proof -
  have "sublist ''Edit''
          ''\<newline>                            <i class=\"fas fa-edit\"></i> Edit''"
    by (simp add: sublist_code)
  moreover have "sublist ''\<newline>                            <i class=\"fas fa-edit\"></i> Edit''
          (edit_button r)"
    unfolding edit_button_def by (rule sublist_concat_member) simp
  ultimately show ?thesis by (rule sublist_trans)
qed

lemma view_button_in_actions: "sublist (view_button r) (report_actions r)"
  unfolding report_actions_def by (rule sublist_concat_member) simp

lemma edit_button_in_actions:
  assumes "status r = ''submitted''"
  shows "sublist (edit_button r) (report_actions r)"
proof -
  have "sublist (edit_button r) (edit_action r)"
    unfolding edit_action_def by (subst if_P [OF assms]) (rule sublist_appendI)
  moreover have "sublist (edit_action r) (report_actions r)"
    unfolding report_actions_def by (rule sublist_concat_member) simp
  ultimately show ?thesis by (rule sublist_trans)
qed

lemma no_E_without_edit:
  assumes "status r \<noteq> ''submitted''"
  shows "CHR ''E'' \<notin> set (report_actions r)"
  using assms no_E_in_show_int [of "report_id r"]
  by (simp add: report_actions_def view_button_def edit_action_def)

lemma no_edit_unless_submitted:
  assumes "status r \<noteq> ''submitted''"
  shows "\<not> sublist ''Edit'' (report_actions r)"
proof
  assume "sublist ''Edit'' (report_actions r)"
  then have "set ''Edit'' \<subseteq> set (report_actions r)" by (rule set_mono_sublist)
  then have "CHR ''E'' \<in> set (report_actions r)" by simp
  with no_E_without_edit [OF assms] show False by simp
qed

text \<open>
  Claim C7. The fragment of a report is the header, the action set and the footer. The
  action set always holds the View Details button. It holds the Edit button when the
  status is \<open>submitted\<close>; for any other status it is exactly the opening tag, the View
  Details button and the closing tag, and the text \<open>Edit\<close> does not occur in it.
\<close>

theorem edit_action_iff_submitted:
  "renderReportItem formatDate r = item_header formatDate r @ report_actions r @ item_footer \<and>
   sublist (report_actions r) (renderReportItem formatDate r) \<and>
   sublist (view_button r) (report_actions r) \<and>
   sublist ''View Details'' (view_button r) \<and>
   sublist ''Edit'' (edit_button r) \<and>
   (sublist (edit_button r) (report_actions r) \<longleftrightarrow> status r = ''submitted'') \<and>
   (sublist ''Edit'' (report_actions r) \<longleftrightarrow> status r = ''submitted'') \<and>
   (status r \<noteq> ''submitted'' \<longrightarrow> edit_action r = [])"
proof -
  have a: "status r = ''submitted'' \<Longrightarrow> sublist ''Edit'' (report_actions r)"
    using edit_in_button edit_button_in_actions by (rule sublist_trans)
  have b: "sublist (edit_button r) (report_actions r) \<Longrightarrow> status r = ''submitted''"
    using no_edit_unless_submitted [of r] sublist_trans [OF edit_in_button, of r "report_actions r"]
    by blast
  show ?thesis
    using a b no_edit_unless_submitted [of r] edit_button_in_actions [of r]
    by (auto simp: renderReportItem_def view_button_in_actions view_details_in_button
        edit_in_button edit_action_def)
qed

theorem edit_action_iff_submitted_witness:
  "sublist ''Edit'' (report_actions pothole_report) \<and>
   \<not> sublist ''Edit'' (report_actions in_progress_report) \<and>
   sublist ''View Details'' (report_actions in_progress_report)"
proof -
  have s: "status pothole_report = ''submitted''" "status in_progress_report \<noteq> ''submitted''"
    by (simp_all add: pothole_report_def in_progress_report_def)
  have v: "sublist ''View Details'' (report_actions in_progress_report)"
    using edit_action_iff_submitted [of plain_date in_progress_report]
    by (blast intro: sublist_trans)
  show ?thesis
    using s v edit_action_iff_submitted [of plain_date pothole_report]
      edit_action_iff_submitted [of plain_date in_progress_report]
    by simp
qed

lemma literal_get_plain:
  assumes "k \<notin> set object_prototype_members"
  shows "literal_or obj k fallback =
           (case map_of obj k of None \<Rightarrow> fallback | Some v \<Rightarrow> if v = [] then fallback else v)"
  using assms by (simp add: literal_or_def literal_get_def split: option.splits)

text \<open>
  Away from the member names of \<open>Object.prototype\<close>, an unknown status gets the
  question-mark icon and an unknown priority the minus icon.
\<close>

lemma getStatusIcon_fallback:
  assumes "s \<notin> set object_prototype_members"
    and "s \<notin> {''submitted'', ''in_progress'', ''resolved'', ''rejected''}"
  shows "getStatusIcon s = ''<i class=\"fas fa-question-circle\"></i>''"
  using assms by (simp add: getStatusIcon_def literal_get_plain status_icons_def)

lemma getPriorityIcon_fallback:
  assumes "p \<notin> set object_prototype_members"
    and "p \<notin> {''low'', ''medium'', ''high'', ''urgent''}"
  shows "getPriorityIcon p = ''<i class=\"fas fa-minus\"></i>''"
  using assms by (simp add: getPriorityIcon_def literal_get_plain priority_icons_def)

text \<open>
  Claim C8 at the status \<open>constructor\<close>: the lookup finds the inherited member
  \<open>Object\<close>, which is truthy, so the fallback is not taken and the icon's class is the
  source text of a function. The same happens in \<open>getPriorityIcon\<close>. The status
  \<open>archived\<close> of the specification's example does get the fallback icon.
\<close>

theorem getStatusIcon_inherited_member:
  "getStatusIcon ''constructor'' = ''<i class=\"function Object() { [native code] }\"></i>'' \<and>
   getStatusIcon ''constructor'' \<noteq> ''<i class=\"fas fa-question-circle\"></i>'' \<and>
   getPriorityIcon ''constructor'' = ''<i class=\"function Object() { [native code] }\"></i>'' \<and>
   getPriorityIcon ''constructor'' \<noteq> ''<i class=\"fas fa-minus\"></i>'' \<and>
   getStatusIcon ''archived'' = ''<i class=\"fas fa-question-circle\"></i>''"
  by (simp add: getStatusIcon_def getPriorityIcon_def literal_or_def literal_get_def
      status_icons_def priority_icons_def object_prototype_members_def member_string_def)

end
